theory Spec2Isabelle
  imports Complex_Main
begin

section \<open>Numbers\<close>

text \<open>
  The C++ type \<open>double\<close> is idealised: joint values, positions and the entries of
  rotation matrices and Jacobians are real numbers (\<^typ>\<open>real\<close>), computed without
  rounding. Box extents, axis tolerances and the two fields of \<open>Bounds\<close> are the places
  where the code stores \<open>std::numeric_limits<double>::infinity()\<close>, so they range over
  the reals extended by the two infinities. NaN is not a value of the model: none of
  the operations below produces one from NaN-free arguments, except a division by
  zero, which the model of \<open>angularVelocityToAngleAxis\<close> makes an explicit error.
  There the rounding of doubles decides whether a divisor is zero, and the model keeps
  the two roundings that do (\<open>rounds_to_one\<close> and \<open>underflows\<close> below).
\<close>

datatype double = NInf | Fin real | PInf

text \<open>\<open>a < b\<close> on doubles.\<close>

fun dless :: "double \<Rightarrow> double \<Rightarrow> bool" where
  "dless (Fin a) (Fin b) = (a < b)"
| "dless NInf NInf = False"
| "dless NInf (Fin b) = True"
| "dless NInf PInf = True"
| "dless (Fin a) PInf = True"
| "dless (Fin a) NInf = False"
| "dless PInf b = False"

text \<open>\<open>a <= b\<close> on doubles.\<close>

fun dle :: "double \<Rightarrow> double \<Rightarrow> bool" where
  "dle (Fin a) (Fin b) = (a \<le> b)"
| "dle NInf b = True"
| "dle (Fin a) PInf = True"
| "dle (Fin a) NInf = False"
| "dle PInf PInf = True"
| "dle PInf (Fin b) = False"
| "dle PInf NInf = False"

text \<open>Unary minus and division by two.\<close>

fun dneg :: "double \<Rightarrow> double" where
  "dneg NInf = PInf"
| "dneg (Fin a) = Fin (- a)"
| "dneg PInf = NInf"

fun dhalf :: "double \<Rightarrow> double" where
  "dhalf NInf = NInf"
| "dhalf (Fin a) = Fin (a / 2)"
| "dhalf PInf = PInf"

text \<open>\<open>d - r\<close> and \<open>r - d\<close> for a double \<open>d\<close> and a finite \<open>r\<close>.\<close>

fun minus_fin :: "double \<Rightarrow> real \<Rightarrow> double" where
  "minus_fin NInf r = NInf"
| "minus_fin (Fin a) r = Fin (a - r)"
| "minus_fin PInf r = PInf"

fun fin_minus :: "real \<Rightarrow> double \<Rightarrow> double" where
  "fin_minus r NInf = PInf"
| "fin_minus r (Fin a) = Fin (r - a)"
| "fin_minus r PInf = NInf"

section \<open>Bounds\<close>

record Bounds =
  lower :: double
  upper :: double

definition penalty :: "Bounds \<Rightarrow> real \<Rightarrow> double" where
  "penalty b v =
     (if dless (Fin v) (lower b) then minus_fin (lower b) v
      else if dless (upper b) (Fin v) then fin_minus v (upper b)
      else Fin 0)"

definition derivative :: "Bounds \<Rightarrow> real \<Rightarrow> real" where
  "derivative b v =
     (if dless (Fin v) (lower b) then - 1
      else if dless (upper b) (Fin v) then 1
      else 0)"

text \<open>\<open>lower <= v <= upper\<close>.\<close>

definition inside :: "Bounds \<Rightarrow> real \<Rightarrow> bool" where
  "inside b v = (dle (lower b) (Fin v) \<and> dle (Fin v) (upper b))"

section \<open>Errors\<close>

text \<open>
  Every way an evaluation or an initialisation can leave its normal path is a value:
  \<^item> \<open>OutOfRange\<close>: \<open>std::out_of_range\<close>, thrown by \<open>at()\<close> on a \<open>std::vector\<close>;
  \<^item> \<open>VectorIndex\<close>: \<open>operator[]\<close> of a \<open>std::vector\<close> beyond its size (undefined
    behaviour in C++);
  \<^item> \<open>EigenIndex\<close>: a coefficient, row or block of an Eigen object addressed outside its
    dimensions (an Eigen assertion; undefined behaviour when assertions are off);
  \<^item> \<open>EigenSize\<close>: an Eigen product or an assignment to an \<open>Eigen::Ref\<close> between
    objects of different dimensions (an Eigen assertion, a \<open>Ref\<close> cannot be resized);
  \<^item> \<open>NotFinite\<close>: a floating-point division by zero. It does not trap in C++: the
    quotient is NaN or an infinity and every entry computed from it is NaN or infinite.
\<close>

datatype error = OutOfRange | VectorIndex | EigenIndex | EigenSize | NotFinite

definition and_then :: "error + 'a \<Rightarrow> ('a \<Rightarrow> error + 'b) \<Rightarrow> error + 'b" where
  "and_then r f = (case r of Inl e \<Rightarrow> Inl e | Inr a \<Rightarrow> f a)"

definition fdiv :: "real \<Rightarrow> real \<Rightarrow> error + real" where
  "fdiv a b = (if b = 0 then Inl NotFinite else Inr (a / b))"

section \<open>Vectors, matrices and rotations\<close>

text \<open>
  \<open>Eigen::Vector3d\<close> is a triple and \<open>Eigen::Matrix3d\<close> a triple of rows.
  \<open>Eigen::VectorXd\<close> is a list and \<open>Eigen::MatrixXd\<close> a list of rows; the
  default-constructed \<open>MatrixXd\<close>, of dimensions 0 x 0, is the empty list.
\<close>

type_synonym Vector3d = "real \<times> real \<times> real"
type_synonym Matrix3d = "Vector3d \<times> Vector3d \<times> Vector3d"
type_synonym VectorXd = "real list"
type_synonym MatrixXd = "real list list"

fun vx :: "Vector3d \<Rightarrow> real" where "vx (a, b, c) = a"
fun vy :: "Vector3d \<Rightarrow> real" where "vy (a, b, c) = b"
fun vz :: "Vector3d \<Rightarrow> real" where "vz (a, b, c) = c"

text \<open>\<open>v[i]\<close> for \<open>i < 3\<close>, the only indices the code uses on a \<open>Vector3d\<close>.\<close>

fun coeff3 :: "Vector3d \<Rightarrow> nat \<Rightarrow> real" where
  "coeff3 (a, b, c) i = (if i = 0 then a else if i = 1 then b else c)"

fun list3 :: "Vector3d \<Rightarrow> VectorXd" where
  "list3 (a, b, c) = [a, b, c]"

fun vsub3 :: "Vector3d \<Rightarrow> Vector3d \<Rightarrow> Vector3d" where
  "vsub3 (a, b, c) (d, e, f) = (a - d, b - e, c - f)"

fun scale3 :: "real \<Rightarrow> Vector3d \<Rightarrow> Vector3d" where
  "scale3 s (a, b, c) = (s * a, s * b, s * c)"

fun dot3 :: "Vector3d \<Rightarrow> Vector3d \<Rightarrow> real" where
  "dot3 (a, b, c) (d, e, f) = a * d + b * e + c * f"

fun transpose3 :: "Matrix3d \<Rightarrow> Matrix3d" where
  "transpose3 ((a, b, c), (d, e, f), (g, h, i)) = ((a, d, g), (b, e, h), (c, f, i))"

fun mat_vec3 :: "Matrix3d \<Rightarrow> Vector3d \<Rightarrow> Vector3d" where
  "mat_vec3 (r0, r1, r2) v = (dot3 r0 v, dot3 r1 v, dot3 r2 v)"

fun mat_mat3 :: "Matrix3d \<Rightarrow> Matrix3d \<Rightarrow> Matrix3d" where
  "mat_mat3 (r0, r1, r2) B =
     (mat_vec3 (transpose3 B) r0, mat_vec3 (transpose3 B) r1, mat_vec3 (transpose3 B) r2)"

fun mat_map3 :: "(real \<Rightarrow> real) \<Rightarrow> Matrix3d \<Rightarrow> Matrix3d" where
  "mat_map3 g ((a, b, c), (d, e, f), (h, i, j)) =
     ((g a, g b, g c), (g d, g e, g f), (g h, g i, g j))"

fun mat_add3 :: "Matrix3d \<Rightarrow> Matrix3d \<Rightarrow> Matrix3d" where
  "mat_add3 ((a, b, c), (d, e, f), (h, i, j)) ((a', b', c'), (d', e', f'), (h', i', j')) =
     ((a + a', b + b', c + c'), (d + d', e + e', f + f'), (h + h', i + i', j + j'))"

definition Identity3 :: Matrix3d where
  "Identity3 = ((1, 0, 0), (0, 1, 0), (0, 0, 1))"

fun rows3 :: "Matrix3d \<Rightarrow> MatrixXd" where
  "rows3 (r0, r1, r2) = [list3 r0, list3 r1, list3 r2]"

text \<open>The number of columns of a matrix with at least one row.\<close>

definition cols :: "MatrixXd \<Rightarrow> nat" where
  "cols m = (case m of [] \<Rightarrow> 0 | r # _ \<Rightarrow> length r)"

text \<open>\<open>sum_k a[k] * B.row(k)\<close>, a row of \<open>n\<close> entries.\<close>

fun lincomb :: "real list \<Rightarrow> MatrixXd \<Rightarrow> nat \<Rightarrow> real list" where
  "lincomb (a # as) (r # rs) n = map2 (+) (map ((*) a) r) (lincomb as rs n)"
| "lincomb as rs n = replicate n 0"

text \<open>The matrix product \<open>A * B\<close>: the columns of \<open>A\<close> must be as many as the rows of \<open>B\<close>.\<close>

definition mat_times :: "MatrixXd \<Rightarrow> MatrixXd \<Rightarrow> error + MatrixXd" where
  "mat_times A B =
     (if list_all (\<lambda>row. length row = length B) A
      then Inr (map (\<lambda>row. lincomb row B (cols B)) A)
      else Inl EigenSize)"

text \<open>\<open>m.topRows(3)\<close> and \<open>m.bottomRows(3)\<close>.\<close>

definition topRows3 :: "MatrixXd \<Rightarrow> error + MatrixXd" where
  "topRows3 m = (if 3 \<le> length m then Inr (take 3 m) else Inl EigenIndex)"

definition bottomRows3 :: "MatrixXd \<Rightarrow> error + MatrixXd" where
  "bottomRows3 m = (if 3 \<le> length m then Inr (drop (length m - 3) m) else Inl EigenIndex)"

text \<open>\<open>m(i, j) = v\<close> on a \<open>MatrixXd\<close>.\<close>

definition coeff_write :: "MatrixXd \<Rightarrow> nat \<Rightarrow> nat \<Rightarrow> real \<Rightarrow> error + MatrixXd" where
  "coeff_write m i j v =
     (if i < length m \<and> j < length (m ! i) then Inr (m[i := (m ! i)[j := v]])
      else Inl EigenIndex)"

text \<open>\<open>out.setZero()\<close> on a matrix.\<close>

definition setZero :: "MatrixXd \<Rightarrow> MatrixXd" where
  "setZero out = map (map (\<lambda>_. 0)) out"

text \<open>\<open>out = m\<close> where \<open>out\<close> is an \<open>Eigen::Ref\<close>: the dimensions must agree.\<close>

definition assign_vector :: "'a list \<Rightarrow> 'a list \<Rightarrow> error + 'a list" where
  "assign_vector out v = (if length out = length v then Inr v else Inl EigenSize)"

definition assign_matrix :: "MatrixXd \<Rightarrow> MatrixXd \<Rightarrow> error + MatrixXd" where
  "assign_matrix out m = (if map length out = map length m then Inr m else Inl EigenSize)"

text \<open>
  \<open>Eigen::Quaterniond\<close> and its \<open>matrix()\<close> (\<open>toRotationMatrix\<close>), with Eigen's
  formula; the quaternion is not normalised.
\<close>

record Quaterniond =
  qw :: real
  qx :: real
  qy :: real
  qz :: real

definition toRotationMatrix :: "Quaterniond \<Rightarrow> Matrix3d" where
  "toRotationMatrix q =
     (let tx = 2 * qx q; ty = 2 * qy q; tz = 2 * qz q;
          twx = tx * qw q; twy = ty * qw q; twz = tz * qw q;
          txx = tx * qx q; txy = ty * qx q; txz = tz * qx q;
          tyy = ty * qy q; tyz = tz * qy q; tzz = tz * qz q
      in ((1 - (tyy + tzz), txy - twz, txz + twy),
          (txy + twz, 1 - (txx + tzz), tyz - twx),
          (txz - twy, tyz + twx, 1 - (txx + tyy))))"

section \<open>The constraint description\<close>

text \<open>
  The fields of \<open>moveit_msgs::Constraints\<close> that the code reads. A \<open>geometry_msgs::Point\<close>
  is a \<open>Vector3d\<close>, a \<open>geometry_msgs::Quaternion\<close> a \<open>Quaterniond\<close>
  (\<open>tf::quaternionMsgToEigen\<close> copies the four fields).
\<close>

record Pose =
  position :: Vector3d
  orientation :: Quaterniond

record SolidPrimitive =
  dimensions :: "double list"

record BoundingVolume =
  primitives :: "SolidPrimitive list"
  primitive_poses :: "Pose list"

record PositionConstraintMsg =
  pc_link_name :: string
  constraint_region :: BoundingVolume

record OrientationConstraintMsg =
  oc_orientation :: Quaterniond
  oc_link_name :: string
  absolute_x_axis_tolerance :: double
  absolute_y_axis_tolerance :: double
  absolute_z_axis_tolerance :: double

record Constraints =
  name :: string
  position_constraints :: "PositionConstraintMsg list"
  orientation_constraints :: "OrientationConstraintMsg list"

section \<open>External collaborators\<close>

text \<open>
  What the code asks of MoveIt and Eigen at evaluation time, as parameters:
  \<^item> \<open>getVariableCount group\<close>: the number of joint variables of the group;
  \<^item> \<open>getGlobalLinkTransform group link q\<close>: the pose of the link once the group's joints
    are set to \<open>q\<close>;
  \<^item> \<open>getJacobian group link q\<close>: the geometric Jacobian of the link's origin at \<open>q\<close>
    (6 rows: three translational, then three rotational);
  \<^item> \<open>toAngleAxis R\<close>: the angle and the axis of \<open>Eigen::AngleAxisd(R)\<close>.
\<close>

record Isometry3d =
  translation :: Vector3d
  linear :: Matrix3d

record environment =
  getVariableCount :: "string \<Rightarrow> nat"
  getGlobalLinkTransform :: "string \<Rightarrow> string \<Rightarrow> VectorXd \<Rightarrow> Isometry3d"
  getJacobian :: "string \<Rightarrow> string \<Rightarrow> VectorXd \<Rightarrow> MatrixXd"
  toAngleAxis :: "Matrix3d \<Rightarrow> real \<times> Vector3d"

section \<open>Constraints\<close>

text \<open>
  The class hierarchy is a record with the dynamic type as a tag. \<open>num_dofs\<close> and
  \<open>num_cons\<close> are the ambient dimension and the co-dimension handed to
  \<open>ompl::base::Constraint\<close>, \<open>tolerance\<close> is what \<open>getTolerance()\<close> returns.
\<close>

datatype variant = Position | Equality | LinearSystem | Orientation

record constraint =
  variant :: variant
  robot_model :: environment
  group :: string
  num_dofs :: nat
  num_cons :: nat
  tolerance :: real
  link_name :: string
  bounds :: "Bounds list"
  target_position :: Vector3d
  start_position :: Vector3d
  end_position :: Vector3d
  target_orientation :: Quaterniond
  equality_constraint_threshold :: real
  is_dim_constrained :: "bool list"

text \<open>
  OMPL's \<open>magic::CONSTRAINT_PROJECTION_TOLERANCE\<close>, the default tolerance of an
  \<open>ompl::base::Constraint\<close>; its value is the one the header's comment quotes.
\<close>

definition CONSTRAINT_PROJECTION_TOLERANCE :: real where
  "CONSTRAINT_PROJECTION_TOLERANCE = 1 / 10000"

text \<open>
  The constructors. C++ leaves the Eigen members indeterminate until the description is
  parsed; the model sets them to zero, and no evaluation below reads a member that
  the variant's parser has not set.
\<close>

definition BaseConstraint ::
  "variant \<Rightarrow> environment \<Rightarrow> string \<Rightarrow> nat \<Rightarrow> nat \<Rightarrow> constraint" where
  "BaseConstraint v E g n k =
     \<lparr>variant = v, robot_model = E, group = g, num_dofs = n, num_cons = k,
      tolerance = CONSTRAINT_PROJECTION_TOLERANCE, link_name = [], bounds = [],
      target_position = (0, 0, 0), start_position = (0, 0, 0), end_position = (0, 0, 0),
      target_orientation = \<lparr>qw = 0, qx = 0, qy = 0, qz = 0\<rparr>,
      equality_constraint_threshold = 0, is_dim_constrained = []\<rparr>"

definition PositionConstraint :: "environment \<Rightarrow> string \<Rightarrow> nat \<Rightarrow> constraint" where
  "PositionConstraint E g n = BaseConstraint Position E g n 3"

definition EqualityPositionConstraint :: "environment \<Rightarrow> string \<Rightarrow> nat \<Rightarrow> constraint" where
  "EqualityPositionConstraint E g n =
     (BaseConstraint Equality E g n 3)\<lparr>equality_constraint_threshold := 1 / 1000\<rparr>"

definition LinearSystemPositionConstraint :: "environment \<Rightarrow> string \<Rightarrow> nat \<Rightarrow> constraint" where
  "LinearSystemPositionConstraint E g n =
     (BaseConstraint LinearSystem E g n 3)\<lparr>equality_constraint_threshold := 1 / 1000\<rparr>"

definition OrientationConstraint :: "environment \<Rightarrow> string \<Rightarrow> nat \<Rightarrow> constraint" where
  "OrientationConstraint E g n = BaseConstraint Orientation E g n 3"

definition forwardKinematics :: "constraint \<Rightarrow> VectorXd \<Rightarrow> Isometry3d" where
  "forwardKinematics c joint_values =
     getGlobalLinkTransform (robot_model c) (group c) (link_name c) joint_values"

definition robotGeometricJacobian :: "constraint \<Rightarrow> VectorXd \<Rightarrow> MatrixXd" where
  "robotGeometricJacobian c joint_values =
     getJacobian (robot_model c) (group c) (link_name c) joint_values"

section \<open>Evaluation: the bounded variants\<close>

definition PositionConstraint_calcError :: "constraint \<Rightarrow> VectorXd \<Rightarrow> VectorXd" where
  "PositionConstraint_calcError c x =
     list3 (mat_vec3 (transpose3 (toRotationMatrix (target_orientation c)))
              (vsub3 (translation (forwardKinematics c x)) (target_position c)))"

definition PositionConstraint_calcErrorJacobian ::
  "constraint \<Rightarrow> VectorXd \<Rightarrow> error + MatrixXd" where
  "PositionConstraint_calcErrorJacobian c x =
     and_then (topRows3 (robotGeometricJacobian c x))
       (mat_times (rows3 (transpose3 (toRotationMatrix (target_orientation c)))))"

definition OrientationConstraint_calcError :: "constraint \<Rightarrow> VectorXd \<Rightarrow> VectorXd" where
  "OrientationConstraint_calcError c x =
     (let orientation_difference =
            mat_mat3 (transpose3 (linear (forwardKinematics c x)))
              (toRotationMatrix (target_orientation c));
          aa = toAngleAxis (robot_model c) orientation_difference
      in list3 (scale3 (fst aa) (snd aa)))"

definition skew :: "Vector3d \<Rightarrow> Matrix3d" where
  "skew axis = ((0, - vz axis, vy axis), (vz axis, 0, - vx axis), (- vy axis, vx axis, 0))"

text \<open>A matrix divided by a scalar, coefficient by coefficient.\<close>

definition mat_div3 :: "Matrix3d \<Rightarrow> real \<Rightarrow> error + Matrix3d" where
  "mat_div3 M s = (if s = 0 then Inl NotFinite else Inr (mat_map3 (\<lambda>e. e / s) M))"

text \<open>
  Two roundings of round-to-nearest double arithmetic decide whether the divisors of
  \<open>angularVelocityToAngleAxis\<close> are zero:
  \<^item> the double nearest to a real in the interval from \<open>1 - 2^-54\<close> to \<open>1 + 2^-53\<close> is
    1.0, so \<open>1 - std::cos(t)\<close> is computed as 0 as soon as the cosine is that close
    to 1 (for \<open>|t|\<close> up to about 1e-8), and not only at \<open>t = 0\<close>;
  \<^item> the double nearest to a real of magnitude at most \<open>2^-1075\<close> is 0, so \<open>t * t\<close> is
    computed as 0 when the product underflows.
  Where a divisor is not computed as zero, the model divides the exact values.
\<close>

definition rounds_to_one :: "real \<Rightarrow> bool" where
  "rounds_to_one c = (1 - 1 / 2 ^ 54 \<le> c \<and> c \<le> 1 + 1 / 2 ^ 53)"

definition underflows :: "real \<Rightarrow> bool" where
  "underflows x = (\<bar>x\<bar> \<le> 1 / 2 ^ 1075)"

definition angularVelocityToAngleAxis :: "real \<Rightarrow> Vector3d \<Rightarrow> error + Matrix3d" where
  "angularVelocityToAngleAxis angle axis =
     (let t = \<bar>angle\<bar>;
          r_skew = mat_map3 (\<lambda>e. e * angle) (skew axis);
          one_minus_cos = (if rounds_to_one (cos t) then 0 else 1 - cos t);
          t_times_t = (if underflows (t * t) then 0 else t * t)
      in and_then (fdiv (0.5 * t * sin t) one_minus_cos) (\<lambda>d.
           let C = 1 - d
           in and_then (mat_div3 (mat_mat3 r_skew r_skew) t_times_t) (\<lambda>M.
                Inr (mat_add3 (mat_add3 Identity3 (mat_map3 (\<lambda>e. - (0.5 * e)) r_skew))
                       (mat_map3 (\<lambda>e. e * C) M)))))"

definition OrientationConstraint_calcErrorJacobian ::
  "constraint \<Rightarrow> VectorXd \<Rightarrow> error + MatrixXd" where
  "OrientationConstraint_calcErrorJacobian c x =
     (let orientation_difference =
            mat_mat3 (transpose3 (linear (forwardKinematics c x)))
              (toRotationMatrix (target_orientation c));
          aa = toAngleAxis (robot_model c) orientation_difference
      in and_then (angularVelocityToAngleAxis (fst aa) (snd aa)) (\<lambda>E.
           and_then (bottomRows3 (robotGeometricJacobian c x))
             (mat_times (rows3 (mat_map3 uminus E)))))"

text \<open>
  The virtual calls. A variant that does not override \<open>calcError\<close> or
  \<open>calcErrorJacobian\<close> gets the base class's zero vector and zero matrix (the base
  versions also write an error line to the log, which the evaluation path of the model
  does not record).
\<close>

definition calcError :: "constraint \<Rightarrow> VectorXd \<Rightarrow> VectorXd" where
  "calcError c x =
     (case variant c of
        Position \<Rightarrow> PositionConstraint_calcError c x
      | Orientation \<Rightarrow> OrientationConstraint_calcError c x
      | _ \<Rightarrow> replicate (num_cons c) 0)"

definition calcErrorJacobian :: "constraint \<Rightarrow> VectorXd \<Rightarrow> error + MatrixXd" where
  "calcErrorJacobian c x =
     (case variant c of
        Position \<Rightarrow> PositionConstraint_calcErrorJacobian c x
      | Orientation \<Rightarrow> OrientationConstraint_calcErrorJacobian c x
      | _ \<Rightarrow> Inr (replicate (num_cons c) (replicate (num_dofs c) 0)))"

text \<open>
  \<open>BaseConstraint::function\<close> and \<open>BaseConstraint::jacobian\<close>. The argument \<open>out\<close> is
  the caller's buffer as it is on entry, the result is the buffer on return. The loops
  run over \<open>i = 0, ..., bounds_.size() - 1\<close>.
\<close>

fun function_loop ::
  "Bounds list \<Rightarrow> VectorXd \<Rightarrow> nat list \<Rightarrow> double list \<Rightarrow> error + double list" where
  "function_loop bs current_values [] out = Inr out"
| "function_loop bs current_values (i # is) out =
     (if i < length bs \<and> i < length current_values \<and> i < length out
      then function_loop bs current_values is
             (out[i := penalty (bs ! i) (current_values ! i)])
      else Inl EigenIndex)"

definition BaseConstraint_function ::
  "constraint \<Rightarrow> VectorXd \<Rightarrow> double list \<Rightarrow> error + double list" where
  "BaseConstraint_function c joint_values out =
     function_loop (bounds c) (calcError c joint_values) [0..<length (bounds c)] out"

fun jacobian_loop ::
  "Bounds list \<Rightarrow> VectorXd \<Rightarrow> MatrixXd \<Rightarrow> nat list \<Rightarrow> MatrixXd \<Rightarrow> error + MatrixXd" where
  "jacobian_loop bs constraint_error robot_jacobian [] out = Inr out"
| "jacobian_loop bs constraint_error robot_jacobian (i # is) out =
     (if i < length bs \<and> i < length constraint_error \<and> i < length robot_jacobian
         \<and> i < length out
      then (if length (robot_jacobian ! i) = length (out ! i)
            then jacobian_loop bs constraint_error robot_jacobian is
                   (out[i := map ((*) (derivative (bs ! i) (constraint_error ! i)))
                               (robot_jacobian ! i)])
            else Inl EigenSize)
      else Inl EigenIndex)"

definition BaseConstraint_jacobian ::
  "constraint \<Rightarrow> VectorXd \<Rightarrow> MatrixXd \<Rightarrow> error + MatrixXd" where
  "BaseConstraint_jacobian c joint_values out =
     and_then (calcErrorJacobian c joint_values) (\<lambda>robot_jacobian.
       jacobian_loop (bounds c) (calcError c joint_values) robot_jacobian
         [0..<length (bounds c)] out)"

section \<open>Evaluation: the equality variant\<close>

fun equality_function_loop ::
  "bool list \<Rightarrow> Vector3d \<Rightarrow> nat list \<Rightarrow> double list \<Rightarrow> error + double list" where
  "equality_function_loop flags err [] out = Inr out"
| "equality_function_loop flags err (d # ds) out =
     (if d < length flags
      then (if d < length out
            then equality_function_loop flags err ds
                   (out[d := (if flags ! d then Fin (coeff3 err d) else Fin 0)])
            else Inl EigenIndex)
      else Inl VectorIndex)"

definition EqualityPositionConstraint_function ::
  "constraint \<Rightarrow> VectorXd \<Rightarrow> double list \<Rightarrow> error + double list" where
  "EqualityPositionConstraint_function c joint_values out =
     equality_function_loop (is_dim_constrained c)
       (mat_vec3 (transpose3 (toRotationMatrix (target_orientation c)))
          (vsub3 (translation (forwardKinematics c joint_values)) (target_position c)))
       [0..<3] out"

fun equality_jacobian_loop ::
  "bool list \<Rightarrow> MatrixXd \<Rightarrow> nat list \<Rightarrow> MatrixXd \<Rightarrow> error + MatrixXd" where
  "equality_jacobian_loop flags jac [] out = Inr out"
| "equality_jacobian_loop flags jac (d # ds) out =
     (if d < length flags
      then (if flags ! d
            then (if d < length jac \<and> d < length out
                  then (if length (jac ! d) = length (out ! d)
                        then equality_jacobian_loop flags jac ds (out[d := jac ! d])
                        else Inl EigenSize)
                  else Inl EigenIndex)
            else equality_jacobian_loop flags jac ds out)
      else Inl VectorIndex)"

definition EqualityPositionConstraint_jacobian ::
  "constraint \<Rightarrow> VectorXd \<Rightarrow> MatrixXd \<Rightarrow> error + MatrixXd" where
  "EqualityPositionConstraint_jacobian c joint_values out =
     and_then
       (and_then (topRows3 (robotGeometricJacobian c joint_values))
          (mat_times (rows3 (transpose3 (toRotationMatrix (target_orientation c))))))
       (\<lambda>jac. equality_jacobian_loop (is_dim_constrained c) jac [0..<3] (setZero out))"

section \<open>Evaluation: the linear-system variant\<close>

text \<open>The two entries of \<open>residual\<close>, from the Cartesian position in the target frame.\<close>

definition residual :: "Vector3d \<Rightarrow> Vector3d \<Rightarrow> Vector3d \<Rightarrow> VectorXd" where
  "residual start_p end_p cartesianPosition =
     [(vx end_p - vx start_p) * (vy cartesianPosition - vy start_p)
        - (vy end_p - vy start_p) * (vx cartesianPosition - vx start_p),
      (vy end_p - vy start_p) * (vz cartesianPosition - vz start_p)
        - (vz end_p - vz start_p) * (vy cartesianPosition - vy start_p)]"

definition LinearSystemPositionConstraint_function ::
  "constraint \<Rightarrow> VectorXd \<Rightarrow> double list \<Rightarrow> error + double list" where
  "LinearSystemPositionConstraint_function c joint_values out =
     (let cartesianPosition =
            mat_vec3 (transpose3 (toRotationMatrix (target_orientation c)))
              (translation (forwardKinematics c joint_values))
      in assign_vector out
           (map Fin (residual (start_position c) (end_position c) cartesianPosition)))"

text \<open>
  The six coefficient writes to \<open>dresidual_dcartesianPosition\<close>, in the order of the
  source, starting from the matrix \<open>m\<close>.
\<close>

definition dresidual_writes :: "Vector3d \<Rightarrow> Vector3d \<Rightarrow> MatrixXd \<Rightarrow> error + MatrixXd" where
  "dresidual_writes start_p end_p m =
     and_then (coeff_write m 0 0 (vy start_p - vy end_p)) (\<lambda>m.
     and_then (coeff_write m 1 0 0) (\<lambda>m.
     and_then (coeff_write m 0 1 (vx end_p - vx start_p)) (\<lambda>m.
     and_then (coeff_write m 1 1 (vz start_p - vz end_p)) (\<lambda>m.
     and_then (coeff_write m 0 1 0) (\<lambda>m.
     coeff_write m 1 1 (vy end_p - vy start_p))))))"

text \<open>
  In \<open>LinearSystemPositionConstraint::jacobian\<close> the writes start from the
  default-constructed matrix.
\<close>

definition LinearSystemPositionConstraint_jacobian ::
  "constraint \<Rightarrow> VectorXd \<Rightarrow> MatrixXd \<Rightarrow> error + MatrixXd" where
  "LinearSystemPositionConstraint_jacobian c joint_values out =
     and_then
       (and_then (topRows3 (robotGeometricJacobian c joint_values))
          (mat_times (rows3 (transpose3 (toRotationMatrix (target_orientation c))))))
       (\<lambda>jac.
          and_then (dresidual_writes (start_position c) (end_position c) [])
            (\<lambda>dresidual_dcartesianPosition.
               and_then (mat_times dresidual_dcartesianPosition jac)
                 (assign_matrix (setZero out))))"

section \<open>The evaluator's two virtual functions\<close>

definition constraint_function ::
  "constraint \<Rightarrow> VectorXd \<Rightarrow> double list \<Rightarrow> error + double list" where
  "constraint_function c joint_values out =
     (case variant c of
        Equality \<Rightarrow> EqualityPositionConstraint_function c joint_values out
      | LinearSystem \<Rightarrow> LinearSystemPositionConstraint_function c joint_values out
      | _ \<Rightarrow> BaseConstraint_function c joint_values out)"

definition constraint_jacobian ::
  "constraint \<Rightarrow> VectorXd \<Rightarrow> MatrixXd \<Rightarrow> error + MatrixXd" where
  "constraint_jacobian c joint_values out =
     (case variant c of
        Equality \<Rightarrow> EqualityPositionConstraint_jacobian c joint_values out
      | LinearSystem \<Rightarrow> LinearSystemPositionConstraint_jacobian c joint_values out
      | _ \<Rightarrow> BaseConstraint_jacobian c joint_values out)"

section \<open>Bound extraction\<close>

text \<open>The loop that replaces a dimension of -1 by infinity.\<close>

definition unconstrained_to_infinity :: "double list \<Rightarrow> double list" where
  "unconstrained_to_infinity dims = map (\<lambda>d. if d = Fin (- 1) then PInf else d) dims"

definition positionConstraintMsgToBoundVector ::
  "PositionConstraintMsg \<Rightarrow> error + Bounds list" where
  "positionConstraintMsgToBoundVector pos_con =
     (case primitives (constraint_region pos_con) of
        [] \<Rightarrow> Inl OutOfRange
      | primitive # _ \<Rightarrow>
          (let dims = unconstrained_to_infinity (dimensions primitive)
           in if 3 \<le> length dims
              then Inr [\<lparr>lower = dhalf (dneg (dims ! 0)), upper = dhalf (dims ! 0)\<rparr>,
                        \<lparr>lower = dhalf (dneg (dims ! 1)), upper = dhalf (dims ! 1)\<rparr>,
                        \<lparr>lower = dhalf (dneg (dims ! 2)), upper = dhalf (dims ! 2)\<rparr>]
              else Inl VectorIndex))"

definition orientationConstraintMsgToBoundVector ::
  "OrientationConstraintMsg \<Rightarrow> Bounds list" where
  "orientationConstraintMsgToBoundVector ori_con =
     (let dims = unconstrained_to_infinity
                   [absolute_x_axis_tolerance ori_con, absolute_y_axis_tolerance ori_con,
                    absolute_z_axis_tolerance ori_con]
      in [\<lparr>lower = dneg (dims ! 0), upper = dims ! 0\<rparr>,
          \<lparr>lower = dneg (dims ! 1), upper = dims ! 1\<rparr>,
          \<lparr>lower = dneg (dims ! 2), upper = dims ! 2\<rparr>])"

section \<open>Initialisation from the description\<close>

text \<open>
  The ROS log is the list of the lines written, oldest first: the severity and the text
  of the message, with the streamed strings and without the streamed numbers. An
  initialisation returns the lines it wrote and either the exception that ended it or
  the constraint with its members set. When an exception ends it, the constraint under
  construction is not part of the result: the factory never hands it out.
\<close>

datatype severity = INFO | WARN | ERROR

type_synonym log = "(severity \<times> string) list"

definition tolerance_message :: string where
  "tolerance_message =
     ''Dimension %li of position constraint is smaller than the tolerance used to evaluate the constraints. This will make all states invalid and planning will fail :( Please use a value between %f and %f. ''"

definition PositionConstraint_parseConstraintMsg ::
  "constraint \<Rightarrow> Constraints \<Rightarrow> log \<times> (error + constraint)" where
  "PositionConstraint_parseConstraintMsg c constraints =
     (let lg = [(INFO, ''Parsing position constraint for OMPL constrained state space.'')]
      in case position_constraints constraints of
           [] \<Rightarrow> (lg, Inl OutOfRange)
         | pos_con # _ \<Rightarrow>
             (case positionConstraintMsgToBoundVector pos_con of
                Inl e \<Rightarrow> (lg, Inl e)
              | Inr bs \<Rightarrow>
                  (let lg = lg @ [(INFO, ''Parsed x constraints''),
                                  (INFO, ''Parsed y constraints''),
                                  (INFO, ''Parsed z constraints'')]
                   in case primitive_poses (constraint_region pos_con) of
                        [] \<Rightarrow> (lg, Inl OutOfRange)
                      | pose # _ \<Rightarrow>
                          (lg @ [(INFO, ''Position constraints applied to link: ''
                                          @ pc_link_name pos_con)],
                           Inr (c\<lparr>bounds := bs,
                                  target_position := position pose,
                                  target_orientation := orientation pose,
                                  link_name := pc_link_name pos_con\<rparr>)))))"

text \<open>
  The classification loop of the equality and the linear-system variants, over
  \<open>i = 0, ..., dims.size() - 1\<close>; \<open>flags\<close> is \<open>is_dim_constrained_\<close>. The source has the
  same loop in both parsers.
\<close>

fun classify_dimensions ::
  "real \<Rightarrow> real \<Rightarrow> double list \<Rightarrow> nat list \<Rightarrow> bool list \<Rightarrow> log
   \<Rightarrow> log \<times> (error + bool list)" where
  "classify_dimensions threshold tol dims [] flags lg = (lg, Inr flags)"
| "classify_dimensions threshold tol dims (i # is) flags lg =
     (if dless (dims ! i) (Fin threshold)
      then (let lg' = (if dless (dims ! i) (Fin tol)
                       then lg @ [(ERROR, tolerance_message)] else lg)
            in if i < length flags
               then classify_dimensions threshold tol dims is (flags[i := True]) lg'
               else (lg', Inl OutOfRange))
      else classify_dimensions threshold tol dims is flags lg)"

definition EqualityPositionConstraint_parseConstraintMsg ::
  "constraint \<Rightarrow> Constraints \<Rightarrow> log \<times> (error + constraint)" where
  "EqualityPositionConstraint_parseConstraintMsg c constraints =
     (let lg = [(INFO, ''Parsing equality position constraint for OMPL constrained state space.'')]
      in case position_constraints constraints of
           [] \<Rightarrow> (lg, Inl OutOfRange)
         | pos_con # _ \<Rightarrow>
             (case primitives (constraint_region pos_con) of
                [] \<Rightarrow> (lg, Inl OutOfRange)
              | primitive # _ \<Rightarrow>
                  (let dims = dimensions primitive
                   in case classify_dimensions (equality_constraint_threshold c) (tolerance c)
                             dims [0..<length dims] [False, False, False] lg of
                        (lg, Inl e) \<Rightarrow> (lg, Inl e)
                      | (lg, Inr flags) \<Rightarrow>
                          (let lg = lg @ [(INFO, ''X dimension constraint? ''),
                                          (INFO, ''Y dimension constraint? ''),
                                          (INFO, ''Z dimension constraint? '')]
                           in case primitive_poses (constraint_region pos_con) of
                                [] \<Rightarrow> (lg, Inl OutOfRange)
                              | pose # _ \<Rightarrow>
                                  (lg @ [(INFO, ''Position constraints applied to link: ''
                                                  @ pc_link_name pos_con)],
                                   Inr (c\<lparr>bounds := [],
                                          is_dim_constrained := flags,
                                          target_position := position pose,
                                          target_orientation := orientation pose,
                                          link_name := pc_link_name pos_con\<rparr>))))))"

definition LinearSystemPositionConstraint_parseConstraintMsg ::
  "constraint \<Rightarrow> Constraints \<Rightarrow> log \<times> (error + constraint)" where
  "LinearSystemPositionConstraint_parseConstraintMsg c constraints =
     (let lg = [(INFO, ''Parsing linear system position constraint for OMPL constrained state space.'')]
      in case position_constraints constraints of
           [] \<Rightarrow> (lg, Inl OutOfRange)
         | pos_con # _ \<Rightarrow>
             (case primitives (constraint_region pos_con) of
                [] \<Rightarrow> (lg, Inl OutOfRange)
              | primitive # _ \<Rightarrow>
                  (let dims = dimensions primitive
                   in case classify_dimensions (equality_constraint_threshold c) (tolerance c)
                             dims [0..<length dims] [False, False, False] lg of
                        (lg, Inl e) \<Rightarrow> (lg, Inl e)
                      | (lg, Inr flags) \<Rightarrow>
                          (let lg = lg @ [(INFO, ''X constrained? ''),
                                          (INFO, ''Y constrained? ''),
                                          (INFO, ''Z constrained? '')]
                           in case primitive_poses (constraint_region pos_con) of
                                [] \<Rightarrow> (lg, Inl OutOfRange)
                              | [pose0] \<Rightarrow> (lg, Inl OutOfRange)
                              | pose0 # pose1 # _ \<Rightarrow>
                                  (lg @ [(INFO, ''Position constraints applied to link: ''
                                                  @ pc_link_name pos_con)],
                                   Inr (c\<lparr>bounds := [],
                                          is_dim_constrained := flags,
                                          start_position := position pose0,
                                          end_position := position pose1,
                                          target_orientation := orientation pose0,
                                          link_name := pc_link_name pos_con\<rparr>))))))"

definition OrientationConstraint_parseConstraintMsg ::
  "constraint \<Rightarrow> Constraints \<Rightarrow> log \<times> (error + constraint)" where
  "OrientationConstraint_parseConstraintMsg c constraints =
     (case orientation_constraints constraints of
        [] \<Rightarrow> ([], Inl OutOfRange)
      | ori_con # _ \<Rightarrow>
          ([(INFO, ''Parsing orientation constraints''),
            (INFO, ''Parsed rx / roll constraints''),
            (INFO, ''Parsed ry / pitch constraints''),
            (INFO, ''Parsed rz / yaw constraints'')],
           Inr (c\<lparr>bounds := orientationConstraintMsgToBoundVector ori_con,
                  target_orientation := oc_orientation ori_con,
                  link_name := oc_link_name ori_con\<rparr>)))"

text \<open>\<open>BaseConstraint::init\<close>: the virtual call of \<open>parseConstraintMsg\<close>.\<close>

definition init :: "constraint \<Rightarrow> Constraints \<Rightarrow> log \<times> (error + constraint)" where
  "init c constraints =
     (case variant c of
        Position \<Rightarrow> PositionConstraint_parseConstraintMsg c constraints
      | Equality \<Rightarrow> EqualityPositionConstraint_parseConstraintMsg c constraints
      | LinearSystem \<Rightarrow> LinearSystemPositionConstraint_parseConstraintMsg c constraints
      | Orientation \<Rightarrow> OrientationConstraint_parseConstraintMsg c constraints)"

section \<open>The factory\<close>

text \<open>
  The result is the log and either the exception that left the factory or the pointer
  returned: \<open>None\<close> is \<open>nullptr\<close>.
\<close>

definition handed_back ::
  "log \<Rightarrow> log \<times> (error + constraint) \<Rightarrow> log \<times> (error + constraint option)" where
  "handed_back lg r =
     (case r of (lg', Inl e) \<Rightarrow> (lg @ lg', Inl e) | (lg', Inr c) \<Rightarrow> (lg @ lg', Inr (Some c)))"

definition createOMPLConstraint ::
  "environment \<Rightarrow> string \<Rightarrow> Constraints \<Rightarrow> log \<times> (error + constraint option)" where
  "createOMPLConstraint E g constraints =
     (let n = getVariableCount E g;
          num_pos_con = length (position_constraints constraints);
          num_ori_con = length (orientation_constraints constraints);
          lg = (if num_pos_con > 1
                then [(WARN, ''Only a single position constraints supported. Using the first one.'')]
                else [])
             @ (if num_ori_con > 1
                then [(WARN, ''Only a single orientation constraints supported. Using the first one.'')]
                else [])
      in if num_pos_con > 0 \<and> num_ori_con > 0
         then (lg @ [(ERROR, ''Combining position and orientation constraints not implemented yet for OMPL's constrained state space.'')],
               Inr None)
         else if num_pos_con > 0
         then (let lg = lg @ [(INFO, ''Constraint name: '' @ name constraints)]
               in if name constraints = ''use_equality_constraints''
                  then handed_back (lg @ [(INFO, ''Using equality position constraints.'')])
                         (init (EqualityPositionConstraint E g n) constraints)
                  else if name constraints = ''linear_system_constraints''
                  then handed_back
                         (lg @ [(INFO, ''Using position constraints from a linear system.'')])
                         (init (LinearSystemPositionConstraint E g n) constraints)
                  else handed_back (lg @ [(INFO, ''Using bounded position constraints.'')])
                         (init (PositionConstraint E g n) constraints))
         else if num_ori_con > 0
         then handed_back (lg @ [(ERROR, ''Orientation constraints are not yet supported.'')])
                (init (OrientationConstraint E g n) constraints)
         else (lg @ [(ERROR, ''No path constraints found in planning request.'')], Inr None))"

section \<open>A two-joint gantry, for concrete evaluations\<close>

text \<open>
  A robot with two prismatic joints moving the link along x and y, without rotating it.
  Its link orientation is always the identity, on which \<open>Eigen::AngleAxisd\<close> returns
  the angle 0 and the axis (1, 0, 0); the descriptions below use the identity as target
  orientation, so this is the only value of \<open>toAngleAxis\<close> that is consulted.
\<close>

definition example_robot :: environment where
  "example_robot =
     \<lparr>getVariableCount = (\<lambda>g. 2),
      getGlobalLinkTransform =
        (\<lambda>g l q. \<lparr>translation = (case q of a # b # _ \<Rightarrow> (a, b, 0) | _ \<Rightarrow> (0, 0, 0)),
                   linear = Identity3\<rparr>),
      getJacobian = (\<lambda>g l q. [[1, 0], [0, 1], [0, 0], [0, 0], [0, 0], [0, 0]]),
      toAngleAxis = (\<lambda>R. (0, (1, 0, 0)))\<rparr>"

definition identity_orientation :: Quaterniond where
  "identity_orientation = \<lparr>qw = 1, qx = 0, qy = 0, qz = 0\<rparr>"

text \<open>
  A description with one position constraint on the link \<open>tool\<close>: one box of the given
  dimensions, and one pose, of identity orientation, at each of the given points.
\<close>

definition box_description :: "string \<Rightarrow> double list \<Rightarrow> Vector3d list \<Rightarrow> Constraints" where
  "box_description tag dims points =
     \<lparr>name = tag,
      position_constraints =
        [\<lparr>pc_link_name = ''tool'',
          constraint_region =
            \<lparr>primitives = [\<lparr>dimensions = dims\<rparr>],
             primitive_poses =
               map (\<lambda>p. \<lparr>position = p, orientation = identity_orientation\<rparr>) points\<rparr>\<rparr>],
      orientation_constraints = []\<rparr>"

text \<open>A description with one orientation constraint, of tolerance 0.1 about each axis.\<close>

definition orientation_description :: Constraints where
  "orientation_description =
     \<lparr>name = [],
      position_constraints = [],
      orientation_constraints =
        [\<lparr>oc_orientation = identity_orientation, oc_link_name = ''tool'',
          absolute_x_axis_tolerance = Fin (1 / 10),
          absolute_y_axis_tolerance = Fin (1 / 10),
          absolute_z_axis_tolerance = Fin (1 / 10)\<rparr>]\<rparr>"

text \<open>
  The constraints the factory returns for four descriptions: a box of 1 x 1 around the
  origin with z free, the header's box [1.0, 1e-5, 1.0] under the equality tag, the
  same box with two poses under the linear-system tag, and the orientation description.
\<close>

definition example_bounded :: constraint where
  "example_bounded =
     (PositionConstraint example_robot ''arm'' 2)
       \<lparr>link_name := ''tool'',
        bounds := [\<lparr>lower = Fin (- (1 / 2)), upper = Fin (1 / 2)\<rparr>,
                   \<lparr>lower = Fin (- (1 / 2)), upper = Fin (1 / 2)\<rparr>,
                   \<lparr>lower = NInf, upper = PInf\<rparr>],
        target_position := (0, 0, 0),
        target_orientation := identity_orientation\<rparr>"

definition example_equality :: constraint where
  "example_equality =
     (EqualityPositionConstraint example_robot ''arm'' 2)
       \<lparr>link_name := ''tool'',
        target_position := (0, 0, 0),
        target_orientation := identity_orientation,
        is_dim_constrained := [False, True, False]\<rparr>"

definition example_line :: constraint where
  "example_line =
     (LinearSystemPositionConstraint example_robot ''arm'' 2)
       \<lparr>link_name := ''tool'',
        start_position := (0, 0, 0),
        end_position := (1, 2, 3),
        target_orientation := identity_orientation,
        is_dim_constrained := [False, True, False]\<rparr>"

definition example_orientation :: constraint where
  "example_orientation =
     (OrientationConstraint example_robot ''arm'' 2)
       \<lparr>link_name := ''tool'',
        bounds := [\<lparr>lower = Fin (- (1 / 10)), upper = Fin (1 / 10)\<rparr>,
                   \<lparr>lower = Fin (- (1 / 10)), upper = Fin (1 / 10)\<rparr>,
                   \<lparr>lower = Fin (- (1 / 10)), upper = Fin (1 / 10)\<rparr>],
        target_orientation := identity_orientation\<rparr>"

section \<open>Statements of the specification, for comparison\<close>

text \<open>
  The 2 x 3 matrix the specification gives for the derivative of the two residuals of
  the linear-system variant with respect to the Cartesian position.
\<close>

definition spec_dresidual :: "Vector3d \<Rightarrow> Vector3d \<Rightarrow> MatrixXd" where
  "spec_dresidual start_p end_p =
     [[vy start_p - vy end_p, vx end_p - vx start_p, 0],
      [0, vz start_p - vz end_p, vy end_p - vy start_p]]"

text \<open>
  The bound the specification gives for a box extent and for an axis tolerance, after
  the replacement of -1 by infinity.
\<close>

definition sentinel :: "double \<Rightarrow> double" where
  "sentinel e = (if e = Fin (- 1) then PInf else e)"

definition extent_bound :: "double \<Rightarrow> Bounds" where
  "extent_bound e = \<lparr>lower = dneg (dhalf (sentinel e)), upper = dhalf (sentinel e)\<rparr>"

definition tolerance_bound :: "double \<Rightarrow> Bounds" where
  "tolerance_bound t = \<lparr>lower = dneg (sentinel t), upper = sentinel t\<rparr>"

section \<open>Properties of Bounds\<close>

lemma dless_iff_not_dle: "dless a b = (\<not> dle b a)"
  by (cases a; cases b) auto

lemma dle_trans: "dle a b \<Longrightarrow> dle b c \<Longrightarrow> dle a c"
  by (cases a; cases b; cases c) auto

lemma minus_fin_pos: "dless (Fin v) l \<Longrightarrow> dless (Fin 0) (minus_fin l v)"
  by (cases l) auto

lemma fin_minus_pos: "dless u (Fin v) \<Longrightarrow> dless (Fin 0) (fin_minus v u)"
  by (cases u) auto

lemma penalty_zero_iff: "penalty b v = Fin 0 \<longleftrightarrow> inside b v"
  by (cases "lower b"; cases "upper b") (auto simp: penalty_def inside_def)

lemma penalty_pos: "\<not> inside b v \<Longrightarrow> dless (Fin 0) (penalty b v)"
  by (cases "lower b"; cases "upper b") (auto simp: penalty_def inside_def)

lemma derivative_within: "inside b v \<Longrightarrow> derivative b v = 0"
  by (cases "lower b"; cases "upper b") (auto simp: derivative_def inside_def)

text \<open>
  Claim C2. For a Bounds value with \<open>lower <= upper\<close> and a real \<open>v\<close>: inside the
  interval, boundary included, the penalty and the derivative are 0; below it the
  penalty is \<open>lower - v > 0\<close> and the derivative is -1; above it the penalty is
  \<open>v - upper > 0\<close> and the derivative is +1.
\<close>

theorem bounds_penalty_derivative:
  assumes "dle (lower b) (upper b)"
  shows "(dle (lower b) (Fin v) \<and> dle (Fin v) (upper b) \<longrightarrow>
            penalty b v = Fin 0 \<and> derivative b v = 0)
       \<and> (dless (Fin v) (lower b) \<longrightarrow>
            penalty b v = minus_fin (lower b) v \<and> dless (Fin 0) (penalty b v)
            \<and> derivative b v = - 1)
       \<and> (dless (upper b) (Fin v) \<longrightarrow>
            penalty b v = fin_minus v (upper b) \<and> dless (Fin 0) (penalty b v)
            \<and> derivative b v = 1)"
proof (intro conjI impI)
  assume "dle (lower b) (Fin v) \<and> dle (Fin v) (upper b)"
  then have "\<not> dless (Fin v) (lower b)" "\<not> dless (upper b) (Fin v)"
    by (simp_all add: dless_iff_not_dle)
  then show "penalty b v = Fin 0" "derivative b v = 0"
    by (simp_all add: penalty_def derivative_def)
next
  assume below: "dless (Fin v) (lower b)"
  then show "penalty b v = minus_fin (lower b) v" "derivative b v = - 1"
    by (simp_all add: penalty_def derivative_def)
  with below show "dless (Fin 0) (penalty b v)"
    by (simp add: minus_fin_pos)
next
  assume above: "dless (upper b) (Fin v)"
  have "\<not> dless (Fin v) (lower b)"
  proof
    assume "dless (Fin v) (lower b)"
    then have "\<not> dle (lower b) (Fin v)" by (simp add: dless_iff_not_dle)
    moreover from above have "\<not> dle (Fin v) (upper b)" by (simp add: dless_iff_not_dle)
    ultimately show False using assms
      by (cases "lower b"; cases "upper b") auto
  qed
  with above show "penalty b v = fin_minus v (upper b)" "derivative b v = 1"
    by (simp_all add: penalty_def derivative_def)
  with above show "dless (Fin 0) (penalty b v)"
    by (simp add: fin_minus_pos)
qed

theorem bounds_penalty_derivative_witness:
  "dle (Fin (- 1)) (Fin 1)
   \<and> penalty \<lparr>lower = Fin (- 1), upper = Fin 1\<rparr> 1 = Fin 0
   \<and> derivative \<lparr>lower = Fin (- 1), upper = Fin 1\<rparr> 1 = 0
   \<and> penalty \<lparr>lower = Fin (- 1), upper = Fin 1\<rparr> (- 3) = Fin 2
   \<and> derivative \<lparr>lower = Fin (- 1), upper = Fin 1\<rparr> (- 3) = - 1
   \<and> penalty \<lparr>lower = Fin (- 1), upper = Fin 1\<rparr> 4 = Fin 3
   \<and> derivative \<lparr>lower = Fin (- 1), upper = Fin 1\<rparr> 4 = 1"
  using bounds_penalty_derivative [of "\<lparr>lower = Fin (- 1), upper = Fin 1\<rparr>" 1]
        bounds_penalty_derivative [of "\<lparr>lower = Fin (- 1), upper = Fin 1\<rparr>" "- 3"]
        bounds_penalty_derivative [of "\<lparr>lower = Fin (- 1), upper = Fin 1\<rparr>" 4]
  by simp

section \<open>The generic composition of bounds and errors\<close>

lemma function_loop_ok:
  "\<forall>i\<in>set is. i < length bs \<and> i < length e \<and> i < length out \<Longrightarrow>
   \<exists>out'. function_loop bs e is out = Inr out' \<and> length out' = length out
      \<and> (\<forall>j<length out. out' ! j = (if j \<in> set is then penalty (bs ! j) (e ! j) else out ! j))"
proof (induction "is" arbitrary: out)
  case Nil
  then show ?case by simp
next
  case (Cons i "is")
  let ?o = "out[i := penalty (bs ! i) (e ! i)]"
  from Cons.prems have "\<forall>k\<in>set is. k < length bs \<and> k < length e \<and> k < length ?o"
    by simp
  from Cons.IH [OF this] obtain out' where
    o: "function_loop bs e is ?o = Inr out'" "length out' = length ?o"
       "\<forall>j<length ?o. out' ! j = (if j \<in> set is then penalty (bs ! j) (e ! j) else ?o ! j)"
    by blast
  from Cons.prems o(1) have "function_loop bs e (i # is) out = Inr out'" by simp
  moreover from o(2) have "length out' = length out" by simp
  moreover have "\<forall>j<length out. out' ! j =
      (if j \<in> set (i # is) then penalty (bs ! j) (e ! j) else out ! j)"
    using o(3) by (auto simp: nth_list_update)
  ultimately show ?case by blast
qed

lemma jacobian_loop_ok:
  "\<forall>i\<in>set is. i < length bs \<and> i < length e \<and> i < length J \<and> i < length out
       \<and> length (J ! i) = length (out ! i) \<Longrightarrow>
   \<exists>out'. jacobian_loop bs e J is out = Inr out' \<and> length out' = length out
      \<and> (\<forall>j<length out. out' ! j =
            (if j \<in> set is then map ((*) (derivative (bs ! j) (e ! j))) (J ! j) else out ! j))"
proof (induction "is" arbitrary: out)
  case Nil
  then show ?case by simp
next
  case (Cons i "is")
  let ?o = "out[i := map ((*) (derivative (bs ! i) (e ! i))) (J ! i)]"
  from Cons.prems have "\<forall>k\<in>set is. k < length bs \<and> k < length e \<and> k < length J
      \<and> k < length ?o \<and> length (J ! k) = length (?o ! k)"
    by (auto simp: nth_list_update)
  from Cons.IH [OF this] obtain out' where
    o: "jacobian_loop bs e J is ?o = Inr out'" "length out' = length ?o"
       "\<forall>j<length ?o. out' ! j =
          (if j \<in> set is then map ((*) (derivative (bs ! j) (e ! j))) (J ! j) else ?o ! j)"
    by blast
  from Cons.prems o(1) have "jacobian_loop bs e J (i # is) out = Inr out'" by simp
  moreover from o(2) have "length out' = length out" by simp
  moreover have "\<forall>j<length out. out' ! j =
      (if j \<in> set (i # is) then map ((*) (derivative (bs ! j) (e ! j))) (J ! j) else out ! j)"
    using o(3) by (auto simp: nth_list_update)
  ultimately show ?case by blast
qed

lemma length_list3 [simp]: "length (list3 v) = 3"
  by (cases v) auto

lemma calcError_length:
  "variant c = Position \<or> variant c = Orientation \<Longrightarrow> length (calcError c q) = 3"
  by (auto simp: calcError_def PositionConstraint_calcError_def
      OrientationConstraint_calcError_def Let_def)

lemma constraint_function_base:
  "variant c = Position \<or> variant c = Orientation \<Longrightarrow>
   constraint_function c q out = BaseConstraint_function c q out"
  by (auto simp: constraint_function_def)

lemma constraint_jacobian_base:
  "variant c = Position \<or> variant c = Orientation \<Longrightarrow>
   constraint_jacobian c q out = BaseConstraint_jacobian c q out"
  by (auto simp: constraint_jacobian_def)

lemma map_times_zero: "map ((*) (0::real)) xs = replicate (length xs) 0"
  by (induction xs) auto

text \<open>
  The composition where the error Jacobian is finite. For a bounded position or an
  orientation constraint: \<open>function\<close> writes \<open>bounds_[i].penalty(calcError(q)[i])\<close> to
  entry \<open>i\<close>, so the entries are all zero exactly when every error component lies
  inside its bound, and an entry is strictly positive when its component violates its
  bound; \<open>jacobian\<close> writes \<open>bounds_[i].derivative(calcError(q)[i])\<close> times row \<open>i\<close> of
  \<open>calcErrorJacobian(q)\<close> to row \<open>i\<close>, which is a zero row when the component is inside
  its bound. The hypotheses give the shapes: at most three bounds (the parsers set
  exactly three), output buffers at least that large, and an error Jacobian without NaN
  or infinite entries whose rows are as wide as those of the buffer.
\<close>

theorem base_constraint_evaluation:
  assumes v: "variant c = Position \<or> variant c = Orientation"
    and n: "length (bounds c) \<le> 3"
    and out: "length (bounds c) \<le> length out"
    and J: "calcErrorJacobian c q = Inr J"
    and rows: "length (bounds c) \<le> length J" "length (bounds c) \<le> length outJ"
    and width: "\<forall>i<length (bounds c). length (J ! i) = length (outJ ! i)"
  shows "(\<exists>out'. constraint_function c q out = Inr out' \<and> length out' = length out
            \<and> (\<forall>i<length (bounds c). out' ! i = penalty (bounds c ! i) (calcError c q ! i))
            \<and> ((\<forall>i<length (bounds c). out' ! i = Fin 0)
                 \<longleftrightarrow> (\<forall>i<length (bounds c). inside (bounds c ! i) (calcError c q ! i)))
            \<and> (\<forall>i<length (bounds c). \<not> inside (bounds c ! i) (calcError c q ! i)
                   \<longrightarrow> dless (Fin 0) (out' ! i)))
       \<and> (\<exists>outJ'. constraint_jacobian c q outJ = Inr outJ' \<and> length outJ' = length outJ
            \<and> (\<forall>i<length (bounds c). outJ' ! i =
                   map ((*) (derivative (bounds c ! i) (calcError c q ! i))) (J ! i))
            \<and> (\<forall>i<length (bounds c). inside (bounds c ! i) (calcError c q ! i)
                   \<longrightarrow> outJ' ! i = replicate (length (J ! i)) 0))"
proof (rule conjI)
  let ?n = "length (bounds c)"
  let ?e = "calcError c q"
  from v have e: "length ?e = 3" by (rule calcError_length)
  have "\<forall>i\<in>set [0..<?n]. i < ?n \<and> i < length ?e \<and> i < length out"
    using n out e by auto
  from function_loop_ok [OF this] obtain out' where
    f: "function_loop (bounds c) ?e [0..<?n] out = Inr out'" "length out' = length out"
       "\<forall>j<length out. out' ! j =
          (if j \<in> set [0..<?n] then penalty (bounds c ! j) (?e ! j) else out ! j)"
    by blast
  have p: "\<forall>i<?n. out' ! i = penalty (bounds c ! i) (?e ! i)"
    using f(3) out by auto
  have "constraint_function c q out = Inr out'"
    using v f(1) by (simp add: constraint_function_base BaseConstraint_function_def)
  moreover have "(\<forall>i<?n. out' ! i = Fin 0) \<longleftrightarrow> (\<forall>i<?n. inside (bounds c ! i) (?e ! i))"
    using p by (simp add: penalty_zero_iff)
  moreover have "\<forall>i<?n. \<not> inside (bounds c ! i) (?e ! i) \<longrightarrow> dless (Fin 0) (out' ! i)"
    using p by (simp add: penalty_pos)
  ultimately show "\<exists>out'. constraint_function c q out = Inr out' \<and> length out' = length out
            \<and> (\<forall>i<?n. out' ! i = penalty (bounds c ! i) (?e ! i))
            \<and> ((\<forall>i<?n. out' ! i = Fin 0) \<longleftrightarrow> (\<forall>i<?n. inside (bounds c ! i) (?e ! i)))
            \<and> (\<forall>i<?n. \<not> inside (bounds c ! i) (?e ! i) \<longrightarrow> dless (Fin 0) (out' ! i))"
    using f(2) p by blast
next
  let ?n = "length (bounds c)"
  let ?e = "calcError c q"
  from v have e: "length ?e = 3" by (rule calcError_length)
  have "\<forall>i\<in>set [0..<?n]. i < ?n \<and> i < length ?e \<and> i < length J \<and> i < length outJ
      \<and> length (J ! i) = length (outJ ! i)"
    using n rows width e by auto
  from jacobian_loop_ok [OF this] obtain outJ' where
    f: "jacobian_loop (bounds c) ?e J [0..<?n] outJ = Inr outJ'" "length outJ' = length outJ"
       "\<forall>j<length outJ. outJ' ! j =
          (if j \<in> set [0..<?n] then map ((*) (derivative (bounds c ! j) (?e ! j))) (J ! j)
           else outJ ! j)"
    by blast
  have p: "\<forall>i<?n. outJ' ! i = map ((*) (derivative (bounds c ! i) (?e ! i))) (J ! i)"
    using f(3) rows by auto
  have "constraint_jacobian c q outJ = Inr outJ'"
    using v f(1) J by (simp add: constraint_jacobian_base BaseConstraint_jacobian_def and_then_def)
  moreover have "\<forall>i<?n. inside (bounds c ! i) (?e ! i)
      \<longrightarrow> outJ' ! i = replicate (length (J ! i)) 0"
    using p by (simp add: derivative_within map_times_zero)
  ultimately show "\<exists>outJ'. constraint_jacobian c q outJ = Inr outJ' \<and> length outJ' = length outJ
            \<and> (\<forall>i<?n. outJ' ! i = map ((*) (derivative (bounds c ! i) (?e ! i))) (J ! i))
            \<and> (\<forall>i<?n. inside (bounds c ! i) (?e ! i)
                   \<longrightarrow> outJ' ! i = replicate (length (J ! i)) 0)"
    using f(2) p by blast
qed

lemmas example_defs = example_robot_def identity_orientation_def box_description_def
  orientation_description_def example_bounded_def example_equality_def example_line_def
  example_orientation_def PositionConstraint_def EqualityPositionConstraint_def
  LinearSystemPositionConstraint_def OrientationConstraint_def BaseConstraint_def
  CONSTRAINT_PROJECTION_TOLERANCE_def

lemmas kinematics_defs = forwardKinematics_def robotGeometricJacobian_def
  toRotationMatrix_def topRows3_def bottomRows3_def mat_times_def cols_def and_then_def

lemma example_bounded_jacobian:
  "calcErrorJacobian example_bounded [2, 1 / 4] = Inr [[1, 0], [0, 1], [0, 0]]"
  by (simp add: calcErrorJacobian_def PositionConstraint_calcErrorJacobian_def
      example_defs kinematics_defs)

lemma example_bounded_error: "calcError example_bounded [2, 1 / 4] = [2, 1 / 4, 0]"
  by (simp add: calcError_def PositionConstraint_calcError_def example_defs kinematics_defs)

lemma three_entries: "length xs = 3 \<Longrightarrow> xs = [xs ! 0, xs ! 1, xs ! 2]"
  by (auto simp: length_Suc_conv eval_nat_numeral)

theorem base_constraint_evaluation_witness:
  "variant example_bounded = Position
   \<and> length (bounds example_bounded) = 3
   \<and> calcErrorJacobian example_bounded [2, 1 / 4] = Inr [[1, 0], [0, 1], [0, 0]]
   \<and> constraint_function example_bounded [2, 1 / 4] [Fin 0, Fin 0, Fin 0]
       = Inr [Fin (3 / 2), Fin 0, Fin 0]
   \<and> constraint_jacobian example_bounded [2, 1 / 4] [[0, 0], [0, 0], [0, 0]]
       = Inr [[1, 0], [0, 0], [0, 0]]"
proof -
  let ?c = example_bounded
  let ?q = "[2, 1 / 4] :: real list"
  have v: "variant ?c = Position \<or> variant ?c = Orientation"
    and n: "length (bounds ?c) \<le> 3"
    and o: "length (bounds ?c) \<le> length [Fin 0, Fin 0, Fin 0]"
    and r: "length (bounds ?c) \<le> length [[1, 0], [0, 1], [0, 0 :: real]]"
           "length (bounds ?c) \<le> length [[0, 0], [0, 0], [0, 0 :: real]]"
    by (simp_all add: example_defs)
  have w: "\<forall>i<length (bounds ?c). length ([[1, 0], [0, 1], [0, 0 :: real]] ! i)
             = length ([[0, 0], [0, 0], [0, 0 :: real]] ! i)"
    by (simp add: example_defs less_Suc_eq nth_Cons')
  have b: "bounds ?c = [\<lparr>lower = Fin (- (1 / 2)), upper = Fin (1 / 2)\<rparr>,
                   \<lparr>lower = Fin (- (1 / 2)), upper = Fin (1 / 2)\<rparr>,
                   \<lparr>lower = NInf, upper = PInf\<rparr>]"
    by (simp add: example_defs)
  note T = base_constraint_evaluation [OF v n o example_bounded_jacobian r w]
  from T obtain out' where
    f: "constraint_function ?c ?q [Fin 0, Fin 0, Fin 0] = Inr out'"
       "length out' = length [Fin 0, Fin 0, Fin (0::real)]"
       "\<forall>i<length (bounds ?c). out' ! i = penalty (bounds ?c ! i) (calcError ?c ?q ! i)"
    by blast
  from T obtain outJ' where
    j: "constraint_jacobian ?c ?q [[0, 0], [0, 0], [0, 0]] = Inr outJ'"
       "length outJ' = length [[0, 0], [0, 0], [0, 0 :: real]]"
       "\<forall>i<length (bounds ?c). outJ' ! i =
           map ((*) (derivative (bounds ?c ! i) (calcError ?c ?q ! i)))
             ([[1, 0], [0, 1], [0, 0]] ! i)"
    by blast
  have "out' = [out' ! 0, out' ! 1, out' ! 2]"
    using f(2) by (intro three_entries) simp
  also have "\<dots> = [Fin (3 / 2), Fin 0, Fin 0]"
    using f(3) by (simp add: b example_bounded_error penalty_def)
  finally have F: "out' = [Fin (3 / 2), Fin 0, Fin 0]" .
  have "outJ' = [outJ' ! 0, outJ' ! 1, outJ' ! 2]"
    using j(2) by (intro three_entries) simp
  also have "\<dots> = [[1, 0], [0, 0], [0, 0]]"
    using j(3) by (simp add: b example_bounded_error derivative_def)
  finally have G: "outJ' = [[1, 0], [0, 0], [0, 0]]" .
  show ?thesis
    using f(1) j(1) F G example_bounded_jacobian by (simp add: example_defs)
qed

section \<open>The equality variant emits the error itself\<close>

lemma upt_three: "[0..<3] = [0, 1, 2]"
  by code_simp

lemma replicate_two: "replicate 2 x = [x, x]"
  by (simp add: numeral_2_eq_2)

lemma classify_dimensions_length:
  "classify_dimensions thr tol dims is flags lg = (lg', Inr flags') \<Longrightarrow>
   length flags' = length flags"
proof (induction "is" arbitrary: flags lg)
  case Nil
  then show ?case by simp
next
  case (Cons i "is")
  then show ?case
    by (fastforce simp: Let_def split: if_splits)
qed

lemma equality_init:
  assumes "snd (init (EqualityPositionConstraint E g n) m) = Inr c"
  shows "variant c = Equality" and "length (is_dim_constrained c) = 3"
  using assms
  by (auto simp: init_def EqualityPositionConstraint_def BaseConstraint_def
      EqualityPositionConstraint_parseConstraintMsg_def Let_def
      split: list.splits prod.splits sum.splits dest: classify_dimensions_length)

lemma lincomb_length:
  "\<forall>r\<in>set rs. length r = n \<Longrightarrow> length (lincomb as rs n) = n"
  by (induction as rs n rule: lincomb.induct) auto

lemma rotate_three_rows:
  assumes "map length B = [w, w, w]"
  shows "\<exists>j0 j1 j2. mat_times (rows3 A) B = Inr [j0, j1, j2]
           \<and> length j0 = w \<and> length j1 = w \<and> length j2 = w"
proof -
  from assms obtain a b c where B: "B = [a, b, c]" "length a = w" "length b = w" "length c = w"
    by (auto simp: map_eq_Cons_conv)
  obtain r0 r1 r2 where A: "A = (r0, r1, r2)" by (cases A) auto
  have "\<forall>r\<in>set B. length r = w" using B by simp
  then have "length (lincomb as B w) = w" for as by (rule lincomb_length)
  then show ?thesis
    using B A by (simp add: mat_times_def cols_def)
qed

text \<open>
  Claim C3. For an initialised equality position constraint and any joint values:
  entry \<open>i\<close> of \<open>function\<close> is component \<open>i\<close> of the error
  \<open>R_target^T (p_actual(q) - p_target)\<close> itself when dimension \<open>i\<close> is constrained and
  0 when it is free; row \<open>i\<close> of \<open>jacobian\<close> is row \<open>i\<close> of \<open>R_target^T\<close> times the
  translational rows of the geometric Jacobian when dimension \<open>i\<close> is constrained and a
  zero row when it is free. The buffers have the declared three entries and three rows,
  as wide as the geometric Jacobian.
\<close>

theorem equality_constraint_evaluation:
  assumes init: "snd (init (EqualityPositionConstraint E g n) m) = Inr c"
    and out: "length out = 3"
    and J: "map length (take 3 (robotGeometricJacobian c q)) = [w, w, w]"
    and outJ: "map length outJ = [w, w, w]"
  shows "constraint_function c q out =
           Inr (map (\<lambda>i. if is_dim_constrained c ! i
                         then Fin (coeff3 (mat_vec3 (transpose3 (toRotationMatrix (target_orientation c)))
                                     (vsub3 (translation (forwardKinematics c q))
                                        (target_position c))) i)
                         else Fin 0) [0, 1, 2])
       \<and> (\<exists>jac. mat_times (rows3 (transpose3 (toRotationMatrix (target_orientation c))))
                    (take 3 (robotGeometricJacobian c q)) = Inr jac
             \<and> constraint_jacobian c q outJ =
                 Inr (map (\<lambda>i. if is_dim_constrained c ! i then jac ! i else replicate w 0)
                        [0, 1, 2]))"
proof (rule conjI)
  from equality_init [OF init] have v: "variant c = Equality"
    and "length (is_dim_constrained c) = 3" by simp_all
  then obtain f0 f1 f2 where fl: "is_dim_constrained c = [f0, f1, f2]"
    by (auto simp: length_Suc_conv eval_nat_numeral)
  from out obtain o0 o1 o2 where o: "out = [o0, o1, o2]"
    by (auto simp: length_Suc_conv eval_nat_numeral)
  show "constraint_function c q out =
           Inr (map (\<lambda>i. if is_dim_constrained c ! i
                         then Fin (coeff3 (mat_vec3 (transpose3 (toRotationMatrix (target_orientation c)))
                                     (vsub3 (translation (forwardKinematics c q))
                                        (target_position c))) i)
                         else Fin 0) [0, 1, 2])"
    by (simp add: constraint_function_def v EqualityPositionConstraint_function_def fl o
        upt_three)
  let ?B = "take 3 (robotGeometricJacobian c q)"
  from rotate_three_rows [OF J] obtain j0 j1 j2 where
    jac: "mat_times (rows3 (transpose3 (toRotationMatrix (target_orientation c)))) ?B
            = Inr [j0, j1, j2]" "length j0 = w" "length j1 = w" "length j2 = w"
    by blast
  from J have "length ?B = 3" by (metis length_map length_Cons list.size(3) numeral_3_eq_3)
  then have top: "topRows3 (robotGeometricJacobian c q) = Inr ?B"
    by (simp add: topRows3_def)
  from outJ obtain r0 r1 r2 where r: "outJ = [r0, r1, r2]"
      "length r0 = w" "length r1 = w" "length r2 = w"
    by (auto simp: map_eq_Cons_conv)
  have z: "map (\<lambda>_. 0::real) x = replicate (length x) 0" for x :: "real list"
    by (simp add: map_replicate_const)
  have "constraint_jacobian c q outJ =
          Inr (map (\<lambda>i. if is_dim_constrained c ! i then [j0, j1, j2] ! i else replicate w 0)
                 [0, 1, 2])"
    using jac(2-4) r(2-4)
    by (simp add: constraint_jacobian_def v EqualityPositionConstraint_jacobian_def top jac(1)
        and_then_def fl r(1) setZero_def z upt_three)
  with jac(1) show "\<exists>jac. mat_times (rows3 (transpose3 (toRotationMatrix (target_orientation c)))) ?B
                            = Inr jac
             \<and> constraint_jacobian c q outJ =
                 Inr (map (\<lambda>i. if is_dim_constrained c ! i then jac ! i else replicate w 0)
                        [0, 1, 2])"
    by blast
qed

theorem equality_constraint_evaluation_witness:
  "snd (init (EqualityPositionConstraint example_robot ''arm'' 2)
          (box_description ''use_equality_constraints'' [Fin 1, Fin (1 / 100000), Fin 1]
             [(0, 0, 0)])) = Inr example_equality
   \<and> constraint_function example_equality [2, 1 / 4] [Fin 7, Fin 7, Fin 7]
       = Inr [Fin 0, Fin (1 / 4), Fin 0]
   \<and> constraint_jacobian example_equality [2, 1 / 4] [[7, 7], [7, 7], [7, 7]]
       = Inr [[0, 0], [0, 1], [0, 0]]"
proof -
  let ?m = "box_description ''use_equality_constraints'' [Fin 1, Fin (1 / 100000), Fin 1]
              [(0, 0, 0)]"
  have i: "snd (init (EqualityPositionConstraint example_robot ''arm'' 2) ?m)
             = Inr example_equality"
    by (simp add: example_defs init_def EqualityPositionConstraint_parseConstraintMsg_def
        upt_rec_numeral)
  have o: "length [Fin 7, Fin 7, Fin 7] = 3" by simp
  have J: "map length (take 3 (robotGeometricJacobian example_equality [2, 1 / 4])) = [2, 2, 2]"
    by (simp add: example_defs kinematics_defs)
  have oJ: "map length [[7, 7], [7, 7], [7, 7::real]] = [2, 2, 2]" by simp
  have B: "mat_times (rows3 (transpose3 (toRotationMatrix (target_orientation example_equality))))
             (take 3 (robotGeometricJacobian example_equality [2, 1 / 4]))
           = Inr [[1, 0], [0, 1], [0, 0]]"
    by (simp add: example_defs kinematics_defs)
  show ?thesis
    using equality_constraint_evaluation [OF i o J oJ] i B
    by (simp add: example_defs kinematics_defs replicate_two)
qed

section \<open>Bound extraction maps extents and tolerances to bounds\<close>

lemma dhalf_dneg: "dhalf (dneg d) = dneg (dhalf d)"
  by (cases d) auto

text \<open>
  Claim C6. For a position constraint whose first primitive has its three box extents,
  \<open>positionConstraintMsgToBoundVector\<close> maps each extent to the bound
  \<open>(-extent/2, extent/2)\<close>, and for every orientation constraint
  \<open>orientationConstraintMsgToBoundVector\<close> maps each axis tolerance \<open>t\<close> to \<open>(-t, t)\<close>,
  both after replacing the value -1 by infinity: an extent or a tolerance of -1 gives
  \<open>(-infinity, +infinity)\<close>, an extent of 2 gives \<open>(-1, 1)\<close>.
\<close>

theorem bound_extraction:
  assumes "primitives (constraint_region pos_con) = primitive # others"
    and "dimensions primitive = ex # ey # ez # further"
  shows "positionConstraintMsgToBoundVector pos_con
           = Inr [extent_bound ex, extent_bound ey, extent_bound ez]
       \<and> orientationConstraintMsgToBoundVector ori_con
           = [tolerance_bound (absolute_x_axis_tolerance ori_con),
              tolerance_bound (absolute_y_axis_tolerance ori_con),
              tolerance_bound (absolute_z_axis_tolerance ori_con)]
       \<and> extent_bound (Fin (- 1)) = \<lparr>lower = NInf, upper = PInf\<rparr>
       \<and> extent_bound (Fin 2) = \<lparr>lower = Fin (- 1), upper = Fin 1\<rparr>
       \<and> tolerance_bound (Fin (- 1)) = \<lparr>lower = NInf, upper = PInf\<rparr>"
  using assms
  by (simp add: positionConstraintMsgToBoundVector_def orientationConstraintMsgToBoundVector_def
      unconstrained_to_infinity_def extent_bound_def tolerance_bound_def sentinel_def
      dhalf_dneg)

theorem bound_extraction_witness:
  "positionConstraintMsgToBoundVector
     \<lparr>pc_link_name = ''tool'',
      constraint_region = \<lparr>primitives = [\<lparr>dimensions = [Fin 2, Fin (- 1), Fin 1]\<rparr>],
                           primitive_poses = []\<rparr>\<rparr>
     = Inr [\<lparr>lower = Fin (- 1), upper = Fin 1\<rparr>, \<lparr>lower = NInf, upper = PInf\<rparr>,
            \<lparr>lower = Fin (- (1 / 2)), upper = Fin (1 / 2)\<rparr>]
   \<and> orientationConstraintMsgToBoundVector
       \<lparr>oc_orientation = identity_orientation, oc_link_name = ''tool'',
        absolute_x_axis_tolerance = Fin (1 / 10), absolute_y_axis_tolerance = Fin (- 1),
        absolute_z_axis_tolerance = PInf\<rparr>
     = [\<lparr>lower = Fin (- (1 / 10)), upper = Fin (1 / 10)\<rparr>, \<lparr>lower = NInf, upper = PInf\<rparr>,
        \<lparr>lower = NInf, upper = PInf\<rparr>]"
  using bound_extraction
    [of "\<lparr>pc_link_name = ''tool'',
          constraint_region = \<lparr>primitives = [\<lparr>dimensions = [Fin 2, Fin (- 1), Fin 1]\<rparr>],
                               primitive_poses = []\<rparr>\<rparr>"
        "\<lparr>dimensions = [Fin 2, Fin (- 1), Fin 1]\<rparr>" "[]" "Fin 2" "Fin (- 1)" "Fin 1" "[]"
        "\<lparr>oc_orientation = identity_orientation, oc_link_name = ''tool'',
          absolute_x_axis_tolerance = Fin (1 / 10), absolute_y_axis_tolerance = Fin (- 1),
          absolute_z_axis_tolerance = PInf\<rparr>"]
  by (simp add: extent_bound_def tolerance_bound_def sentinel_def)

section \<open>The linear-system variant: residual and Jacobian\<close>

text \<open>
  \<open>residual\<close> is affine in the Cartesian position and \<open>spec_dresidual\<close> is its linear
  part.
\<close>

lemma residual_affine:
  "residual s e (px + dx, py + dy, pz + dz) =
     map2 (+) (residual s e (px, py, pz))
       (map (\<lambda>row. row ! 0 * dx + row ! 1 * dy + row ! 2 * dz) (spec_dresidual s e))"
  by (simp add: residual_def spec_dresidual_def algebra_simps)

lemma rotate_top_rows:
  "3 \<le> length J \<Longrightarrow> \<exists>jac. mat_times (rows3 A) (take 3 J) = Inr jac"
  by (cases A rule: rows3.cases) (simp add: mat_times_def)

lemma dresidual_writes_unallocated: "dresidual_writes s e [] = Inl EigenIndex"
  by (simp add: dresidual_writes_def coeff_write_def and_then_def)

text \<open>
  Claim C10 asks that every coefficient write to \<open>dresidual_dcartesianPosition\<close> in
  \<open>LinearSystemPositionConstraint::jacobian\<close> falls inside the allocated matrix. The
  matrix is default-constructed, of dimensions 0 x 0, so the first write, to (0, 0),
  is already out of range, and for every constraint, joint values and output buffer
  the evaluation ends in the out-of-range branch.
\<close>

theorem dresidual_write_out_of_range:
  "coeff_write [] 0 0 v = Inl EigenIndex
   \<and> dresidual_writes s e [] = Inl EigenIndex
   \<and> LinearSystemPositionConstraint_jacobian c q out = Inl EigenIndex
   \<and> constraint_jacobian example_line q out = Inl EigenIndex"
proof (intro conjI)
  show "coeff_write [] 0 0 v = Inl EigenIndex"
    by (simp add: coeff_write_def)
  show "dresidual_writes s e [] = Inl EigenIndex"
    by (rule dresidual_writes_unallocated)
  show j: "LinearSystemPositionConstraint_jacobian c q out = Inl EigenIndex" for c
  proof (cases "3 \<le> length (robotGeometricJacobian c q)")
    case True
    from rotate_top_rows [OF this] obtain jac where
      "mat_times (rows3 (transpose3 (toRotationMatrix (target_orientation c))))
         (take 3 (robotGeometricJacobian c q)) = Inr jac" by blast
    with True show ?thesis
      by (simp add: LinearSystemPositionConstraint_jacobian_def topRows3_def and_then_def
          dresidual_writes_unallocated)
  next
    case False
    then show ?thesis
      by (simp add: LinearSystemPositionConstraint_jacobian_def topRows3_def and_then_def)
  qed
  show "constraint_jacobian example_line q out = Inl EigenIndex"
    by (simp add: constraint_jacobian_def j example_line_def
        LinearSystemPositionConstraint_def BaseConstraint_def)
qed

text \<open>
  Claim C4 asks that the Jacobian of the linear-system variant be the matrix
  \<open>spec_dresidual\<close> (the derivative of \<open>residual\<close> by lemma \<open>residual_affine\<close>)
  times the projected translational Jacobian. For the line from (0, 0, 0) to (1, 2, 3),
  as the factory initialises it, the evaluation ends in the out-of-range branch; and had
  the matrix been allocated with 2 x 3 zeros, the six writes would leave
  \<open>[[-2, 0, 0], [0, 2, 0]]\<close> where the derivative is \<open>[[-2, 1, 0], [0, -3, 2]]\<close>: the
  two writes commented as the z-derivatives go to column 1 and overwrite the
  y-derivatives.
\<close>

theorem linear_system_jacobian_diverges:
  "snd (createOMPLConstraint example_robot ''arm''
          (box_description ''linear_system_constraints'' [Fin 1, Fin (1 / 100000), Fin 1]
             [(0, 0, 0), (1, 2, 3)])) = Inr (Some example_line)
   \<and> constraint_jacobian example_line [2, 1 / 4] [[0, 0], [0, 0], [0, 0]] = Inl EigenIndex
   \<and> dresidual_writes (start_position example_line) (end_position example_line)
        [[0, 0, 0], [0, 0, 0]] = Inr [[- 2, 0, 0], [0, 2, 0]]
   \<and> spec_dresidual (start_position example_line) (end_position example_line)
        = [[- 2, 1, 0], [0, - 3, 2]]"
proof (intro conjI)
  show "snd (createOMPLConstraint example_robot ''arm''
          (box_description ''linear_system_constraints'' [Fin 1, Fin (1 / 100000), Fin 1]
             [(0, 0, 0), (1, 2, 3)])) = Inr (Some example_line)"
    by (simp add: example_defs createOMPLConstraint_def handed_back_def init_def
        LinearSystemPositionConstraint_parseConstraintMsg_def upt_three)
  show "constraint_jacobian example_line [2, 1 / 4] [[0, 0], [0, 0], [0, 0]] = Inl EigenIndex"
    by (simp add: constraint_jacobian_def LinearSystemPositionConstraint_jacobian_def
        dresidual_writes_def coeff_write_def example_defs kinematics_defs)
  show "dresidual_writes (start_position example_line) (end_position example_line)
        [[0, 0, 0], [0, 0, 0]] = Inr [[- 2, 0, 0], [0, 2, 0]]"
    by (simp add: dresidual_writes_def coeff_write_def and_then_def example_defs)
  show "spec_dresidual (start_position example_line) (end_position example_line)
        = [[- 2, 1, 0], [0, - 3, 2]]"
    by (simp add: spec_dresidual_def example_defs)
qed

text \<open>
  Claim C9 asks that every variant writes a residual of the declared dimension 3. The
  linear-system variant is constructed with co-dimension 3 and assigns a vector of two
  entries to the output: with the three-entry buffer of the declared dimension the
  assignment is a dimension mismatch, and it succeeds only on a two-entry buffer.
\<close>

theorem linear_system_residual_has_two_entries:
  "num_cons (LinearSystemPositionConstraint E g n) = 3
   \<and> length (residual s e p) = 2
   \<and> LinearSystemPositionConstraint_function c q [o0, o1, o2] = Inl EigenSize
   \<and> num_cons example_line = 3
   \<and> constraint_function example_line [2, 1 / 4] [Fin 0, Fin 0, Fin 0] = Inl EigenSize
   \<and> constraint_function example_line [2, 1 / 4] [Fin 0, Fin 0]
       = Inr [Fin (- (15 / 4)), Fin (- (3 / 4))]"
  by (simp add: LinearSystemPositionConstraint_def BaseConstraint_def residual_def
      LinearSystemPositionConstraint_function_def assign_vector_def constraint_function_def
      example_line_def example_robot_def identity_orientation_def forwardKinematics_def
      toRotationMatrix_def)

section \<open>The orientation variant at and near angle zero\<close>

text \<open>The cosine of a small angle is close to 1.\<close>

lemma one_minus_cos_le: "1 - cos t \<le> t\<^sup>2 / 2" for t :: real
proof -
  have "1 - cos t = 2 * (sin (t / 2))\<^sup>2"
    using cos_double_sin [of "t / 2"] by simp
  also have "(sin (t / 2))\<^sup>2 \<le> (t / 2)\<^sup>2"
    by (rule iffD1 [OF abs_le_square_iff]) (rule abs_sin_x_le_abs_x)
  finally show ?thesis by (simp add: power2_eq_square)
qed

text \<open>
  For every angle of magnitude up to \<open>2^-27\<close> the cosine is computed as 1.0 and the
  first division is by zero.
\<close>

lemma angle_axis_operator_near_zero:
  assumes "\<bar>angle\<bar> \<le> 1 / 2 ^ 27"
  shows "angularVelocityToAngleAxis angle axis = Inl NotFinite"
proof -
  have "\<bar>angle\<bar>\<^sup>2 \<le> (1 / 2 ^ 27)\<^sup>2"
    using assms by (intro power_mono) simp_all
  then have "\<bar>angle\<bar>\<^sup>2 / 2 \<le> 1 / 2 ^ 54"
    by (simp add: power_divide)
  with one_minus_cos_le [of "\<bar>angle\<bar>"] have "1 - cos \<bar>angle\<bar> \<le> 1 / 2 ^ 54"
    by linarith
  moreover have "cos \<bar>angle\<bar> \<le> 1 + 1 / 2 ^ 53"
  proof -
    have "(0::real) \<le> 1 / 2 ^ 53" by simp
    with cos_le_one [of "\<bar>angle\<bar>"] show ?thesis by linarith
  qed
  ultimately have "rounds_to_one (cos \<bar>angle\<bar>)"
    by (simp add: rounds_to_one_def)
  then show ?thesis
    by (simp add: angularVelocityToAngleAxis_def fdiv_def and_then_def Let_def)
qed

text \<open>Where neither divisor is computed as zero the operator is finite.\<close>

lemma angle_axis_operator_finite:
  assumes "\<not> rounds_to_one (cos \<bar>angle\<bar>)" and "\<not> underflows (\<bar>angle\<bar> * \<bar>angle\<bar>)"
  shows "\<exists>M. angularVelocityToAngleAxis angle axis = Inr M"
proof -
  from assms(1) have "cos \<bar>angle\<bar> \<noteq> 1"
    by (auto simp: rounds_to_one_def)
  moreover from assms(2) have "\<bar>angle\<bar> * \<bar>angle\<bar> \<noteq> 0"
    by (auto simp: underflows_def)
  ultimately show ?thesis
    using assms
    by (simp add: angularVelocityToAngleAxis_def fdiv_def mat_div3_def and_then_def Let_def
        del: split_paired_Ex)
qed

text \<open>
  Claim C5 asks that the orientation variant's error Jacobian has no NaN or infinite
  entry where the angle between the actual and the target orientation is zero or near
  zero. At angle 0 both divisions of \<open>angularVelocityToAngleAxis\<close> are by zero, for
  every axis; for the gantry, whose link orientation equals the target orientation,
  \<open>calcErrorJacobian\<close> and \<open>jacobian\<close> therefore return non-finite entries.
\<close>

theorem angle_axis_operator_at_zero:
  "angularVelocityToAngleAxis 0 axis = Inl NotFinite
   \<and> snd (createOMPLConstraint example_robot ''arm'' orientation_description)
       = Inr (Some example_orientation)
   \<and> calcErrorJacobian example_orientation [2, 1 / 4] = Inl NotFinite
   \<and> constraint_jacobian example_orientation [2, 1 / 4] [[0, 0], [0, 0], [0, 0]]
       = Inl NotFinite"
proof (intro conjI)
  show z: "angularVelocityToAngleAxis 0 axis = Inl NotFinite" for axis
    by (simp add: angularVelocityToAngleAxis_def rounds_to_one_def fdiv_def and_then_def)
  show "snd (createOMPLConstraint example_robot ''arm'' orientation_description)
       = Inr (Some example_orientation)"
    by (simp add: example_defs createOMPLConstraint_def handed_back_def init_def
        OrientationConstraint_parseConstraintMsg_def orientationConstraintMsgToBoundVector_def
        unconstrained_to_infinity_def)
  show c: "calcErrorJacobian example_orientation [2, 1 / 4] = Inl NotFinite"
    by (simp add: calcErrorJacobian_def OrientationConstraint_calcErrorJacobian_def z
        and_then_def example_orientation_def OrientationConstraint_def BaseConstraint_def
        example_robot_def)
  show "constraint_jacobian example_orientation [2, 1 / 4] [[0, 0], [0, 0], [0, 0]]
       = Inl NotFinite"
  proof -
    have "variant example_orientation = Orientation"
      by (simp add: example_orientation_def OrientationConstraint_def BaseConstraint_def)
    then show ?thesis
      by (simp add: constraint_jacobian_def BaseConstraint_jacobian_def c and_then_def)
  qed
qed

text \<open>The gantry's orientation constraint is on target at every joint position.\<close>

lemma example_orientation_on_target:
  "calcErrorJacobian example_orientation q = Inl NotFinite"
  by (simp add: calcErrorJacobian_def OrientationConstraint_calcErrorJacobian_def
      angularVelocityToAngleAxis_def rounds_to_one_def fdiv_def
      and_then_def example_orientation_def OrientationConstraint_def BaseConstraint_def
      example_robot_def)

text \<open>
  Claim C1 asks, for a bounded position or an orientation constraint and for every
  joint values, that \<open>function\<close> writes \<open>bounds_[i].penalty(calcError(q)[i])\<close> to entry
  \<open>i\<close>, and that \<open>jacobian\<close> writes \<open>bounds_[i].derivative(calcError(q)[i])\<close> times
  row \<open>i\<close> of \<open>calcErrorJacobian(q)\<close> to row \<open>i\<close>, so that the rows of the components
  inside their bounds are zero. Lemma \<open>base_constraint_evaluation\<close> shows this wherever
  the error Jacobian is finite. For the orientation variant on target it is not: at
  the gantry's constraint the three error components are 0, inside their bounds, and
  \<open>function\<close> writes three zeros, but every entry of \<open>calcErrorJacobian\<close> is NaN or
  infinite, so the rows that \<open>jacobian\<close> writes, \<open>0.0\<close> times such entries, are NaN and
  not the zero rows of the claim.
\<close>

theorem orientation_on_target_rows_not_zero:
  "variant example_orientation = Orientation
   \<and> calcError example_orientation [2, 1 / 4] = [0, 0, 0]
   \<and> list_all2 inside (bounds example_orientation) (calcError example_orientation [2, 1 / 4])
   \<and> constraint_function example_orientation [2, 1 / 4] [Fin 7, Fin 7, Fin 7]
       = Inr [Fin 0, Fin 0, Fin 0]
   \<and> calcErrorJacobian example_orientation [2, 1 / 4] = Inl NotFinite
   \<and> constraint_jacobian example_orientation [2, 1 / 4] outJ = Inl NotFinite
   \<and> constraint_jacobian example_orientation [2, 1 / 4] outJ
       \<noteq> Inr [[0, 0], [0, 0], [0, 0]]"
proof -
  have v: "variant example_orientation = Orientation"
    by (simp add: example_orientation_def OrientationConstraint_def BaseConstraint_def)
  have b: "bounds example_orientation =
             [\<lparr>lower = Fin (- (1 / 10)), upper = Fin (1 / 10)\<rparr>,
              \<lparr>lower = Fin (- (1 / 10)), upper = Fin (1 / 10)\<rparr>,
              \<lparr>lower = Fin (- (1 / 10)), upper = Fin (1 / 10)\<rparr>]"
    by (simp add: example_orientation_def OrientationConstraint_def BaseConstraint_def)
  have e: "calcError example_orientation [2, 1 / 4] = [0, 0, 0]"
    by (simp add: calcError_def OrientationConstraint_calcError_def
        example_orientation_def OrientationConstraint_def BaseConstraint_def example_robot_def)
  have i: "list_all2 inside (bounds example_orientation)
             (calcError example_orientation [2, 1 / 4])"
    by (simp add: b e inside_def)
  have f: "constraint_function example_orientation [2, 1 / 4] [Fin 7, Fin 7, Fin 7]
             = Inr [Fin 0, Fin 0, Fin 0]"
    by (simp add: constraint_function_def v BaseConstraint_function_def b e upt_three
        penalty_def)
  have j: "calcErrorJacobian example_orientation [2, 1 / 4] = Inl NotFinite"
    by (rule example_orientation_on_target)
  have k: "constraint_jacobian example_orientation [2, 1 / 4] outJ = Inl NotFinite"
    by (simp add: constraint_jacobian_def v BaseConstraint_jacobian_def j and_then_def)
  from v e i f j k show ?thesis by simp
qed

section \<open>What the factory returns\<close>

lemma dless_trans: "dless a b \<Longrightarrow> dless b c \<Longrightarrow> dless a c"
  by (cases a; cases b; cases c) auto

lemma classify_dimensions_ok:
  "\<forall>i\<in>set is. i < length flags \<Longrightarrow>
   \<exists>lg' flags'. classify_dimensions thr tol dims is flags lg = (lg', Inr flags')
      \<and> length flags' = length flags
      \<and> (\<forall>j<length flags. flags' ! j
            = (flags ! j \<or> (j \<in> set is \<and> dless (dims ! j) (Fin thr))))
      \<and> ((\<exists>i\<in>set is. dless (dims ! i) (Fin thr) \<and> dless (dims ! i) (Fin tol))
           \<or> (ERROR, tolerance_message) \<in> set lg
           \<longrightarrow> (ERROR, tolerance_message) \<in> set lg')"
proof (induction "is" arbitrary: flags lg)
  case Nil
  then show ?case by simp
next
  case (Cons i "is")
  show ?case
  proof (cases "dless (dims ! i) (Fin thr)")
    case False
    from Cons.prems have "\<forall>k\<in>set is. k < length flags" by simp
    from Cons.IH [OF this, of lg] False show ?thesis
      by (auto simp: Let_def)
  next
    case True
    let ?lg = "if dless (dims ! i) (Fin tol) then lg @ [(ERROR, tolerance_message)] else lg"
    from Cons.prems have i: "i < length flags"
      and "\<forall>k\<in>set is. k < length (flags[i := True])" by simp_all
    from Cons.IH [OF this(2), of ?lg] obtain lg' flags' where
      r: "classify_dimensions thr tol dims is (flags[i := True]) ?lg = (lg', Inr flags')"
         "length flags' = length flags"
         "\<forall>j<length flags. flags' ! j
            = ((flags[i := True]) ! j \<or> (j \<in> set is \<and> dless (dims ! j) (Fin thr)))"
         "(\<exists>k\<in>set is. dless (dims ! k) (Fin thr) \<and> dless (dims ! k) (Fin tol))
           \<or> (ERROR, tolerance_message) \<in> set ?lg
           \<longrightarrow> (ERROR, tolerance_message) \<in> set lg'"
      by auto
    have "classify_dimensions thr tol dims (i # is) flags lg = (lg', Inr flags')"
      using True i r(1) by (simp add: Let_def)
    moreover have "\<forall>j<length flags. flags' ! j
            = (flags ! j \<or> (j \<in> set (i # is) \<and> dless (dims ! j) (Fin thr)))"
      using r(3) True i by (auto simp: nth_list_update split: if_splits)
    moreover have "(\<exists>k\<in>set (i # is). dless (dims ! k) (Fin thr) \<and> dless (dims ! k) (Fin tol))
           \<or> (ERROR, tolerance_message) \<in> set lg
           \<longrightarrow> (ERROR, tolerance_message) \<in> set lg'"
      using r(4) by auto
    ultimately show ?thesis using r(2) by blast
  qed
qed

text \<open>The classification of a box with three extents.\<close>

lemma classify_three:
  assumes "length dims = 3"
  shows "\<exists>lg'. classify_dimensions thr tol dims [0..<length dims] [False, False, False] lg
                 = (lg', Inr (map (\<lambda>d. dless d (Fin thr)) dims))
           \<and> ((\<exists>i<3. dless (dims ! i) (Fin thr) \<and> dless (dims ! i) (Fin tol))
                \<longrightarrow> (ERROR, tolerance_message) \<in> set lg')"
proof -
  have "\<forall>i\<in>set [0..<length dims]. i < length [False, False, False]"
    using assms by simp
  from classify_dimensions_ok [OF this, of thr tol dims lg] obtain lg' flags' where
    r: "classify_dimensions thr tol dims [0..<length dims] [False, False, False] lg
          = (lg', Inr flags')"
       "length flags' = length [False, False, False]"
       "\<forall>j<length [False, False, False]. flags' ! j
            = ([False, False, False] ! j
               \<or> (j \<in> set [0..<length dims] \<and> dless (dims ! j) (Fin thr)))"
       "(\<exists>i\<in>set [0..<length dims]. dless (dims ! i) (Fin thr) \<and> dless (dims ! i) (Fin tol))
           \<or> (ERROR, tolerance_message) \<in> set lg
           \<longrightarrow> (ERROR, tolerance_message) \<in> set lg'"
    by blast
  have "flags' = map (\<lambda>d. dless d (Fin thr)) dims"
    using r(2,3) assms by (auto simp: list_eq_iff_nth_eq nth_Cons' )
  moreover have "(\<exists>i<3. dless (dims ! i) (Fin thr) \<and> dless (dims ! i) (Fin tol))
                \<longrightarrow> (ERROR, tolerance_message) \<in> set lg'"
    using r(4) assms by auto
  ultimately show ?thesis using r(1) by blast
qed


lemma equality_factory:
  assumes "orientation_constraints m = []" "position_constraints m = pc # pcs"
    and "primitives (constraint_region pc) = prim # prims" "length (dimensions prim) = 3"
    and "primitive_poses (constraint_region pc) = pose # poses"
    and "name m = ''use_equality_constraints''"
  shows "\<exists>lg. createOMPLConstraint E g m =
           (lg, Inr (Some ((EqualityPositionConstraint E g (getVariableCount E g))
                      \<lparr>bounds := [],
                       is_dim_constrained := map (\<lambda>d. dless d (Fin (1 / 1000))) (dimensions prim),
                       target_position := position pose,
                       target_orientation := orientation pose,
                       link_name := pc_link_name pc\<rparr>)))
         \<and> ((\<exists>i<3. dless (dimensions prim ! i) (Fin (1 / 1000))
                    \<and> dless (dimensions prim ! i) (Fin CONSTRAINT_PROJECTION_TOLERANCE))
              \<longrightarrow> (ERROR, tolerance_message) \<in> set lg)"
proof -
  let ?lg = "[(INFO, ''Parsing equality position constraint for OMPL constrained state space.'')]"
  from classify_three [OF assms(4), of "1 / 1000" CONSTRAINT_PROJECTION_TOLERANCE ?lg]
  obtain lg' where
    c: "classify_dimensions (1 / 1000) CONSTRAINT_PROJECTION_TOLERANCE (dimensions prim)
          [0..<length (dimensions prim)] [False, False, False] ?lg
        = (lg', Inr (map (\<lambda>d. dless d (Fin (1 / 1000))) (dimensions prim)))"
       "(\<exists>i<3. dless (dimensions prim ! i) (Fin (1 / 1000))
              \<and> dless (dimensions prim ! i) (Fin CONSTRAINT_PROJECTION_TOLERANCE))
        \<longrightarrow> (ERROR, tolerance_message) \<in> set lg'"
    by blast
  show ?thesis
    using assms(1,2,3,5,6) c
    by (simp add: createOMPLConstraint_def handed_back_def init_def
        EqualityPositionConstraint_parseConstraintMsg_def EqualityPositionConstraint_def
        BaseConstraint_def Let_def)
qed

lemma linear_system_factory:
  assumes "orientation_constraints m = []" "position_constraints m = pc # pcs"
    and "primitives (constraint_region pc) = prim # prims" "length (dimensions prim) = 3"
    and "primitive_poses (constraint_region pc) = pose0 # pose1 # poses"
    and "name m = ''linear_system_constraints''"
  shows "\<exists>lg. createOMPLConstraint E g m =
           (lg, Inr (Some ((LinearSystemPositionConstraint E g (getVariableCount E g))
                      \<lparr>bounds := [],
                       is_dim_constrained := map (\<lambda>d. dless d (Fin (1 / 1000))) (dimensions prim),
                       start_position := position pose0,
                       end_position := position pose1,
                       target_orientation := orientation pose0,
                       link_name := pc_link_name pc\<rparr>)))
         \<and> ((\<exists>i<3. dless (dimensions prim ! i) (Fin (1 / 1000))
                    \<and> dless (dimensions prim ! i) (Fin CONSTRAINT_PROJECTION_TOLERANCE))
              \<longrightarrow> (ERROR, tolerance_message) \<in> set lg)"
proof -
  let ?lg = "[(INFO, ''Parsing linear system position constraint for OMPL constrained state space.'')]"
  from classify_three [OF assms(4), of "1 / 1000" CONSTRAINT_PROJECTION_TOLERANCE ?lg]
  obtain lg' where
    c: "classify_dimensions (1 / 1000) CONSTRAINT_PROJECTION_TOLERANCE (dimensions prim)
          [0..<length (dimensions prim)] [False, False, False] ?lg
        = (lg', Inr (map (\<lambda>d. dless d (Fin (1 / 1000))) (dimensions prim)))"
       "(\<exists>i<3. dless (dimensions prim ! i) (Fin (1 / 1000))
              \<and> dless (dimensions prim ! i) (Fin CONSTRAINT_PROJECTION_TOLERANCE))
        \<longrightarrow> (ERROR, tolerance_message) \<in> set lg'"
    by blast
  show ?thesis
    using assms(1,2,3,5,6) c
    by (simp add: createOMPLConstraint_def handed_back_def init_def
        LinearSystemPositionConstraint_parseConstraintMsg_def LinearSystemPositionConstraint_def
        BaseConstraint_def Let_def)
qed

lemma bounded_factory:
  assumes "orientation_constraints m = []" "position_constraints m = pc # pcs"
    and "primitives (constraint_region pc) = prim # prims" "length (dimensions prim) = 3"
    and "primitive_poses (constraint_region pc) = pose # poses"
    and "name m \<noteq> ''use_equality_constraints''" "name m \<noteq> ''linear_system_constraints''"
  shows "snd (createOMPLConstraint E g m) =
           Inr (Some ((PositionConstraint E g (getVariableCount E g))
                  \<lparr>bounds := map extent_bound (dimensions prim),
                   target_position := position pose,
                   target_orientation := orientation pose,
                   link_name := pc_link_name pc\<rparr>))"
proof -
  from assms(4) obtain ex ey ez where d: "dimensions prim = [ex, ey, ez]"
    by (auto simp: length_Suc_conv eval_nat_numeral)
  have "positionConstraintMsgToBoundVector pc = Inr (map extent_bound (dimensions prim))"
    using assms(3) d
    by (simp add: positionConstraintMsgToBoundVector_def unconstrained_to_infinity_def
        extent_bound_def sentinel_def dhalf_dneg)
  then show ?thesis
    using assms(1,2,5,6,7)
    by (simp add: createOMPLConstraint_def handed_back_def init_def
        PositionConstraint_parseConstraintMsg_def PositionConstraint_def
        BaseConstraint_def Let_def)
qed

lemma orientation_factory:
  assumes "position_constraints m = []" "orientation_constraints m = oc # ocs"
  shows "snd (createOMPLConstraint E g m) =
           Inr (Some ((OrientationConstraint E g (getVariableCount E g))
                  \<lparr>bounds := orientationConstraintMsgToBoundVector oc,
                   target_orientation := oc_orientation oc,
                   link_name := oc_link_name oc\<rparr>))"
    and "(ERROR, ''Orientation constraints are not yet supported.'')
           \<in> set (fst (createOMPLConstraint E g m))"
  using assms
  by (simp_all add: createOMPLConstraint_def handed_back_def init_def
      OrientationConstraint_parseConstraintMsg_def OrientationConstraint_def
      BaseConstraint_def Let_def)

lemma no_constraint_factory:
  "position_constraints m \<noteq> [] \<and> orientation_constraints m \<noteq> []
   \<or> position_constraints m = [] \<and> orientation_constraints m = [] \<Longrightarrow>
   snd (createOMPLConstraint E g m) = Inr None"
  by (auto simp: createOMPLConstraint_def Let_def)


lemma linear_system_factory_one_pose:
  assumes "orientation_constraints m = []" "position_constraints m = pc # pcs"
    and "primitives (constraint_region pc) = prim # prims" "length (dimensions prim) = 3"
    and "primitive_poses (constraint_region pc) = [pose]"
    and "name m = ''linear_system_constraints''"
  shows "snd (createOMPLConstraint E g m) = Inl OutOfRange"
proof -
  let ?lg = "[(INFO, ''Parsing linear system position constraint for OMPL constrained state space.'')]"
  from classify_three [OF assms(4), of "1 / 1000" CONSTRAINT_PROJECTION_TOLERANCE ?lg]
  obtain lg' where
    "classify_dimensions (1 / 1000) CONSTRAINT_PROJECTION_TOLERANCE (dimensions prim)
          [0..<length (dimensions prim)] [False, False, False] ?lg
        = (lg', Inr (map (\<lambda>d. dless d (Fin (1 / 1000))) (dimensions prim)))"
    by blast
  then show ?thesis
    using assms(1,2,3,5,6)
    by (simp add: createOMPLConstraint_def handed_back_def init_def
        LinearSystemPositionConstraint_parseConstraintMsg_def LinearSystemPositionConstraint_def
        BaseConstraint_def Let_def)
qed

text \<open>
  Claim C7, as the code has it. \<open>createOMPLConstraint\<close> returns \<open>nullptr\<close> when both
  lists of the description are non-empty and when both are empty. With only
  orientation constraints it returns the orientation constraint initialised from the
  first of them, and the log has the error line that they are not yet supported. With
  only position constraints, the first of which has a first primitive of three
  dimensions and a first primitive pose, it returns the initialised equality variant
  for the tag \<open>use_equality_constraints\<close>, the initialised bounded variant for every tag
  other than the two special ones, and for the tag \<open>linear_system_constraints\<close> the
  initialised linear-system variant when there is a second primitive pose, while
  without one \<open>at(1)\<close> throws and nothing is returned.
\<close>

theorem createOMPLConstraint_selection:
  "(position_constraints m \<noteq> [] \<and> orientation_constraints m \<noteq> []
      \<longrightarrow> snd (createOMPLConstraint E g m) = Inr None)
   \<and> (position_constraints m = [] \<and> orientation_constraints m = []
      \<longrightarrow> snd (createOMPLConstraint E g m) = Inr None)
   \<and> (position_constraints m = [] \<and> orientation_constraints m = oc # ocs
      \<longrightarrow> snd (createOMPLConstraint E g m) =
            Inr (Some ((OrientationConstraint E g (getVariableCount E g))
                   \<lparr>bounds := orientationConstraintMsgToBoundVector oc,
                    target_orientation := oc_orientation oc,
                    link_name := oc_link_name oc\<rparr>))
          \<and> (ERROR, ''Orientation constraints are not yet supported.'')
               \<in> set (fst (createOMPLConstraint E g m)))
   \<and> (orientation_constraints m = [] \<and> position_constraints m = pc # pcs
       \<and> primitives (constraint_region pc) = prim # prims \<and> length (dimensions prim) = 3
       \<and> primitive_poses (constraint_region pc) = pose # poses
      \<longrightarrow> (name m = ''use_equality_constraints''
            \<longrightarrow> snd (createOMPLConstraint E g m) =
                  Inr (Some ((EqualityPositionConstraint E g (getVariableCount E g))
                         \<lparr>bounds := [],
                          is_dim_constrained :=
                            map (\<lambda>d. dless d (Fin (1 / 1000))) (dimensions prim),
                          target_position := position pose,
                          target_orientation := orientation pose,
                          link_name := pc_link_name pc\<rparr>)))
          \<and> (name m = ''linear_system_constraints''
            \<longrightarrow> snd (createOMPLConstraint E g m) =
                  (case poses of
                     [] \<Rightarrow> Inl OutOfRange
                   | pose1 # _ \<Rightarrow>
                       Inr (Some ((LinearSystemPositionConstraint E g (getVariableCount E g))
                              \<lparr>bounds := [],
                               is_dim_constrained :=
                                 map (\<lambda>d. dless d (Fin (1 / 1000))) (dimensions prim),
                               start_position := position pose,
                               end_position := position pose1,
                               target_orientation := orientation pose,
                               link_name := pc_link_name pc\<rparr>))))
          \<and> (name m \<noteq> ''use_equality_constraints'' \<and> name m \<noteq> ''linear_system_constraints''
            \<longrightarrow> snd (createOMPLConstraint E g m) =
                  Inr (Some ((PositionConstraint E g (getVariableCount E g))
                         \<lparr>bounds := map extent_bound (dimensions prim),
                          target_position := position pose,
                          target_orientation := orientation pose,
                          link_name := pc_link_name pc\<rparr>))))"
proof (intro conjI impI; (elim conjE)?)
  assume "position_constraints m \<noteq> []" "orientation_constraints m \<noteq> []"
  then show "snd (createOMPLConstraint E g m) = Inr None"
    by (simp add: no_constraint_factory)
next
  assume "position_constraints m = []" "orientation_constraints m = []"
  then show "snd (createOMPLConstraint E g m) = Inr None"
    by (simp add: no_constraint_factory)
next
  assume a: "position_constraints m = []" "orientation_constraints m = oc # ocs"
  from orientation_factory(1) [OF a]
  show "snd (createOMPLConstraint E g m) =
            Inr (Some ((OrientationConstraint E g (getVariableCount E g))
                   \<lparr>bounds := orientationConstraintMsgToBoundVector oc,
                    target_orientation := oc_orientation oc,
                    link_name := oc_link_name oc\<rparr>))" .
  from orientation_factory(2) [OF a]
  show "(ERROR, ''Orientation constraints are not yet supported.'')
               \<in> set (fst (createOMPLConstraint E g m))" .
next
  assume a: "orientation_constraints m = []" "position_constraints m = pc # pcs"
    "primitives (constraint_region pc) = prim # prims" "length (dimensions prim) = 3"
    "primitive_poses (constraint_region pc) = pose # poses"
  {
    assume n: "name m = ''use_equality_constraints''"
    from equality_factory [OF a n, of E g]
    show "snd (createOMPLConstraint E g m) =
                  Inr (Some ((EqualityPositionConstraint E g (getVariableCount E g))
                         \<lparr>bounds := [],
                          is_dim_constrained :=
                            map (\<lambda>d. dless d (Fin (1 / 1000))) (dimensions prim),
                          target_position := position pose,
                          target_orientation := orientation pose,
                          link_name := pc_link_name pc\<rparr>))"
      by auto
  }
  {
    assume n: "name m = ''linear_system_constraints''"
    show "snd (createOMPLConstraint E g m) =
                  (case poses of
                     [] \<Rightarrow> Inl OutOfRange
                   | pose1 # _ \<Rightarrow>
                       Inr (Some ((LinearSystemPositionConstraint E g (getVariableCount E g))
                              \<lparr>bounds := [],
                               is_dim_constrained :=
                                 map (\<lambda>d. dless d (Fin (1 / 1000))) (dimensions prim),
                               start_position := position pose,
                               end_position := position pose1,
                               target_orientation := orientation pose,
                               link_name := pc_link_name pc\<rparr>)))"
    proof (cases poses)
      case Nil
      with a(5) have "primitive_poses (constraint_region pc) = [pose]" by simp
      from linear_system_factory_one_pose [OF a(1-4) this n] Nil show ?thesis by simp
    next
      case (Cons pose1 rest)
      with a(5) have "primitive_poses (constraint_region pc) = pose # pose1 # rest" by simp
      from linear_system_factory [OF a(1-4) this n, of E g] Cons show ?thesis by auto
    qed
  }
  {
    assume n: "name m \<noteq> ''use_equality_constraints''" "name m \<noteq> ''linear_system_constraints''"
    from bounded_factory [OF a n]
    show "snd (createOMPLConstraint E g m) =
                  Inr (Some ((PositionConstraint E g (getVariableCount E g))
                         \<lparr>bounds := map extent_bound (dimensions prim),
                          target_position := position pose,
                          target_orientation := orientation pose,
                          link_name := pc_link_name pc\<rparr>))" .
  }
qed


theorem createOMPLConstraint_selection_witness:
  "snd (createOMPLConstraint example_robot ''arm''
          (box_description ''box'' [Fin 1, Fin 1, Fin (- 1)] [(0, 0, 0)]))
     = Inr (Some example_bounded)
   \<and> snd (createOMPLConstraint example_robot ''arm''
          (box_description ''use_equality_constraints'' [Fin 1, Fin (1 / 100000), Fin 1]
             [(0, 0, 0)]))
     = Inr (Some example_equality)
   \<and> snd (createOMPLConstraint example_robot ''arm''
          (box_description ''linear_system_constraints'' [Fin 1, Fin (1 / 100000), Fin 1]
             [(0, 0, 0), (1, 2, 3)]))
     = Inr (Some example_line)
   \<and> snd (createOMPLConstraint example_robot ''arm'' orientation_description)
     = Inr (Some example_orientation)
   \<and> snd (createOMPLConstraint example_robot ''arm''
          (orientation_description
             \<lparr>position_constraints :=
                position_constraints (box_description ''box'' [Fin 1, Fin 1, Fin 1] [(0, 0, 0)])\<rparr>))
     = Inr None
   \<and> snd (createOMPLConstraint example_robot ''arm''
          (orientation_description\<lparr>orientation_constraints := []\<rparr>))
     = Inr None"
proof -
  let ?pose = "\<lparr>position = (0, 0, 0), orientation = identity_orientation\<rparr>"
  let ?pc = "\<lambda>dims points. \<lparr>pc_link_name = ''tool'',
           constraint_region =
             \<lparr>primitives = [\<lparr>dimensions = dims\<rparr>],
              primitive_poses =
                map (\<lambda>p. \<lparr>position = p, orientation = identity_orientation\<rparr>) points\<rparr>\<rparr>"
  note S = createOMPLConstraint_selection [where E = example_robot and g = "''arm''"]
  have 1: "snd (createOMPLConstraint example_robot ''arm''
          (box_description ''box'' [Fin 1, Fin 1, Fin (- 1)] [(0, 0, 0)]))
     = Inr (Some example_bounded)"
    using S [where m = "box_description ''box'' [Fin 1, Fin 1, Fin (- 1)] [(0, 0, 0)]"
        and pc = "?pc [Fin 1, Fin 1, Fin (- 1)] [(0, 0, 0)]" and pcs = "[]"
        and prim = "\<lparr>dimensions = [Fin 1, Fin 1, Fin (- 1)]\<rparr>" and prims = "[]"
        and pose = ?pose and poses = "[]"]
    by (simp add: example_defs extent_bound_def sentinel_def)
  have 2: "snd (createOMPLConstraint example_robot ''arm''
          (box_description ''use_equality_constraints'' [Fin 1, Fin (1 / 100000), Fin 1]
             [(0, 0, 0)]))
     = Inr (Some example_equality)"
    using S [where m = "box_description ''use_equality_constraints''
                          [Fin 1, Fin (1 / 100000), Fin 1] [(0, 0, 0)]"
        and pc = "?pc [Fin 1, Fin (1 / 100000), Fin 1] [(0, 0, 0)]" and pcs = "[]"
        and prim = "\<lparr>dimensions = [Fin 1, Fin (1 / 100000), Fin 1]\<rparr>" and prims = "[]"
        and pose = ?pose and poses = "[]"]
    by (simp add: example_defs)
  have 3: "snd (createOMPLConstraint example_robot ''arm''
          (box_description ''linear_system_constraints'' [Fin 1, Fin (1 / 100000), Fin 1]
             [(0, 0, 0), (1, 2, 3)]))
     = Inr (Some example_line)"
    using S [where m = "box_description ''linear_system_constraints''
                          [Fin 1, Fin (1 / 100000), Fin 1] [(0, 0, 0), (1, 2, 3)]"
        and pc = "?pc [Fin 1, Fin (1 / 100000), Fin 1] [(0, 0, 0), (1, 2, 3)]" and pcs = "[]"
        and prim = "\<lparr>dimensions = [Fin 1, Fin (1 / 100000), Fin 1]\<rparr>" and prims = "[]"
        and pose = ?pose
        and poses = "[\<lparr>position = (1, 2, 3), orientation = identity_orientation\<rparr>]"]
    by (simp add: example_defs)
  have 4: "snd (createOMPLConstraint example_robot ''arm'' orientation_description)
     = Inr (Some example_orientation)"
    using S [where m = orientation_description
        and oc = "\<lparr>oc_orientation = identity_orientation, oc_link_name = ''tool'',
                  absolute_x_axis_tolerance = Fin (1 / 10),
                  absolute_y_axis_tolerance = Fin (1 / 10),
                  absolute_z_axis_tolerance = Fin (1 / 10)\<rparr>" and ocs = "[]"]
    by (simp add: example_defs orientationConstraintMsgToBoundVector_def
        unconstrained_to_infinity_def)
  have 5: "snd (createOMPLConstraint example_robot ''arm''
          (orientation_description
             \<lparr>position_constraints :=
                position_constraints (box_description ''box'' [Fin 1, Fin 1, Fin 1] [(0, 0, 0)])\<rparr>))
     = Inr None"
    using S [where m = "orientation_description
             \<lparr>position_constraints :=
                position_constraints (box_description ''box'' [Fin 1, Fin 1, Fin 1] [(0, 0, 0)])\<rparr>"]
    by (simp add: example_defs)
  have 6: "snd (createOMPLConstraint example_robot ''arm''
          (orientation_description\<lparr>orientation_constraints := []\<rparr>))
     = Inr None"
    using S [where m = "orientation_description\<lparr>orientation_constraints := []\<rparr>"]
    by (simp add: example_defs)
  from 1 2 3 4 5 6 show ?thesis by blast
qed

text \<open>
  A description with only a position constraint and the tag
  \<open>linear_system_constraints\<close>, whose region has one pose: the factory does not return
  a constraint, initialisation throws \<open>std::out_of_range\<close>.
\<close>

theorem linear_system_needs_two_poses:
  "position_constraints
     (box_description ''linear_system_constraints'' [Fin 1, Fin (1 / 100000), Fin 1]
        [(0, 0, 0)]) \<noteq> []
   \<and> orientation_constraints
       (box_description ''linear_system_constraints'' [Fin 1, Fin (1 / 100000), Fin 1]
          [(0, 0, 0)]) = []
   \<and> name (box_description ''linear_system_constraints'' [Fin 1, Fin (1 / 100000), Fin 1]
             [(0, 0, 0)]) = ''linear_system_constraints''
   \<and> snd (createOMPLConstraint example_robot ''arm''
            (box_description ''linear_system_constraints'' [Fin 1, Fin (1 / 100000), Fin 1]
               [(0, 0, 0)])) = Inl OutOfRange"
  by (simp add: box_description_def createOMPLConstraint_def handed_back_def init_def
      LinearSystemPositionConstraint_parseConstraintMsg_def LinearSystemPositionConstraint_def
      BaseConstraint_def CONSTRAINT_PROJECTION_TOLERANCE_def upt_three)

text \<open>
  Claim C8, as the code has it. When an equality-style constraint is initialised from a
  box with three extents and the poses the variant reads, and an extent is below the
  evaluator's tolerance, the factory writes the error line \<open>tolerance_message\<close> to the
  log and still returns the initialised constraint, with that dimension classified as
  constrained.
\<close>

theorem thin_extent_logged_and_accepted:
  assumes "orientation_constraints m = []" "position_constraints m = pc # pcs"
    and "primitives (constraint_region pc) = prim # prims" "length (dimensions prim) = 3"
    and "primitive_poses (constraint_region pc) = pose # poses"
    and "name m = ''use_equality_constraints''
         \<or> name m = ''linear_system_constraints'' \<and> poses \<noteq> []"
    and "i < 3" "dless (dimensions prim ! i) (Fin CONSTRAINT_PROJECTION_TOLERANCE)"
  shows "\<exists>lg c. createOMPLConstraint E g m = (lg, Inr (Some c))
           \<and> (ERROR, tolerance_message) \<in> set lg
           \<and> tolerance c = CONSTRAINT_PROJECTION_TOLERANCE
           \<and> length (is_dim_constrained c) = 3
           \<and> is_dim_constrained c ! i"
proof -
  have "dless (Fin CONSTRAINT_PROJECTION_TOLERANCE) (Fin (1 / 1000))"
    by (simp add: CONSTRAINT_PROJECTION_TOLERANCE_def)
  with assms(8) have thin: "dless (dimensions prim ! i) (Fin (1 / 1000))"
    by (rule dless_trans)
  with assms(7,8) have ex: "\<exists>i<3. dless (dimensions prim ! i) (Fin (1 / 1000))
                    \<and> dless (dimensions prim ! i) (Fin CONSTRAINT_PROJECTION_TOLERANCE)"
    by blast
  from assms(6) show ?thesis
  proof
    assume n: "name m = ''use_equality_constraints''"
    from equality_factory [OF assms(1-5) n, of E g] ex obtain lg where
      "createOMPLConstraint E g m =
           (lg, Inr (Some ((EqualityPositionConstraint E g (getVariableCount E g))
                      \<lparr>bounds := [],
                       is_dim_constrained := map (\<lambda>d. dless d (Fin (1 / 1000))) (dimensions prim),
                       target_position := position pose,
                       target_orientation := orientation pose,
                       link_name := pc_link_name pc\<rparr>)))"
      "(ERROR, tolerance_message) \<in> set lg"
      by blast
    then show ?thesis
      using assms(4,7) thin
      by (simp add: EqualityPositionConstraint_def BaseConstraint_def)
  next
    assume "name m = ''linear_system_constraints'' \<and> poses \<noteq> []"
    then obtain pose1 rest where n: "name m = ''linear_system_constraints''"
      and p: "primitive_poses (constraint_region pc) = pose # pose1 # rest"
      using assms(5) by (cases poses) auto
    from linear_system_factory [OF assms(1-4) p n, of E g] ex obtain lg where
      "createOMPLConstraint E g m =
           (lg, Inr (Some ((LinearSystemPositionConstraint E g (getVariableCount E g))
                      \<lparr>bounds := [],
                       is_dim_constrained := map (\<lambda>d. dless d (Fin (1 / 1000))) (dimensions prim),
                       start_position := position pose,
                       end_position := position pose1,
                       target_orientation := orientation pose,
                       link_name := pc_link_name pc\<rparr>)))"
      "(ERROR, tolerance_message) \<in> set lg"
      by blast
    then show ?thesis
      using assms(4,7) thin
      by (simp add: LinearSystemPositionConstraint_def BaseConstraint_def)
  qed
qed

theorem thin_extent_logged_and_accepted_witness:
  "dless (Fin (1 / 100000)) (Fin CONSTRAINT_PROJECTION_TOLERANCE)
   \<and> (\<exists>lg. createOMPLConstraint example_robot ''arm''
             (box_description ''use_equality_constraints'' [Fin 1, Fin (1 / 100000), Fin 1]
                [(0, 0, 0)]) = (lg, Inr (Some example_equality))
          \<and> (ERROR, tolerance_message) \<in> set lg)"
proof -
  let ?m = "box_description ''use_equality_constraints'' [Fin 1, Fin (1 / 100000), Fin 1]
              [(0, 0, 0)]"
  let ?prim = "\<lparr>dimensions = [Fin 1, Fin (1 / 100000), Fin 1]\<rparr>"
  let ?pose = "\<lparr>position = (0, 0, 0), orientation = identity_orientation\<rparr>"
  let ?pc = "\<lparr>pc_link_name = ''tool'',
           constraint_region = \<lparr>primitives = [?prim], primitive_poses = [?pose]\<rparr>\<rparr>"
  have h: "orientation_constraints ?m = []" "position_constraints ?m = ?pc # []"
    "primitives (constraint_region ?pc) = ?prim # []" "length (dimensions ?prim) = 3"
    "primitive_poses (constraint_region ?pc) = ?pose # []"
    "name ?m = ''use_equality_constraints''
       \<or> name ?m = ''linear_system_constraints'' \<and> ([] :: Pose list) \<noteq> []"
    "(1::nat) < 3"
    "dless (dimensions ?prim ! 1) (Fin CONSTRAINT_PROJECTION_TOLERANCE)"
    by (simp_all add: box_description_def CONSTRAINT_PROJECTION_TOLERANCE_def)
  from thin_extent_logged_and_accepted [OF h, of example_robot "''arm''"]
  obtain lg c where r: "createOMPLConstraint example_robot ''arm'' ?m = (lg, Inr (Some c))"
    "(ERROR, tolerance_message) \<in> set lg"
    by blast
  from r(1) have "snd (createOMPLConstraint example_robot ''arm'' ?m) = Inr (Some c)"
    by simp
  moreover have "snd (createOMPLConstraint example_robot ''arm'' ?m) = Inr (Some example_equality)"
    by (simp add: example_defs createOMPLConstraint_def handed_back_def init_def
        EqualityPositionConstraint_parseConstraintMsg_def upt_three)
  ultimately have "c = example_equality" by simp
  with r h(8) show ?thesis by simp
qed

text \<open>
  The box [1.0, 1e-5, 1.0] of the header's comment under the equality tag: the extent
  1e-5 is below the tolerance 1e-4, and the factory hands back the initialised
  constraint with the y dimension constrained.
\<close>

theorem thin_extent_constraint_handed_back:
  "dless (Fin (1 / 100000)) (Fin CONSTRAINT_PROJECTION_TOLERANCE)
   \<and> snd (createOMPLConstraint example_robot ''arm''
            (box_description ''use_equality_constraints'' [Fin 1, Fin (1 / 100000), Fin 1]
               [(0, 0, 0)])) = Inr (Some example_equality)
   \<and> is_dim_constrained example_equality = [False, True, False]"
  by (simp add: example_defs createOMPLConstraint_def handed_back_def init_def
      EqualityPositionConstraint_parseConstraintMsg_def upt_three)

end
